theory Spec2Isabelle
  imports Complex_Main
begin

section \<open>JavaScript strings and truthiness\<close>

text \<open>
  A JavaScript string is a sequence of UTF-16 code units; \<open>js\<close> embeds an ASCII literal.
  A request field that may be absent is an \<open>option\<close>; \<open>!field\<close> holds for an absent
  field and for the empty string (for a number: absent or \<open>0\<close>). Request fields are
  read at the type the endpoint expects: texts as strings, coordinates as numbers.
\<close>

type_synonym jsstring = "nat list"

definition js :: "string \<Rightarrow> jsstring" where
  "js s = map of_char s"

definition truthy :: "jsstring option \<Rightarrow> bool" where
  "truthy v = (case v of None \<Rightarrow> False | Some s \<Rightarrow> s \<noteq> [])"

definition truthy_num :: "real option \<Rightarrow> bool" where
  "truthy_num v = (case v of None \<Rightarrow> False | Some x \<Rightarrow> x \<noteq> 0)"

text \<open>The value of a field that has been tested to be present.\<close>

definition num_of :: "real option \<Rightarrow> real" where
  "num_of v = (case v of None \<Rightarrow> 0 | Some x \<Rightarrow> x)"

definition str_of :: "jsstring option \<Rightarrow> jsstring" where
  "str_of v = (case v of None \<Rightarrow> [] | Some s \<Rightarrow> s)"

text \<open>\<open>a || b\<close> on optional strings.\<close>

definition js_or :: "jsstring option \<Rightarrow> jsstring option \<Rightarrow> jsstring option" where
  "js_or a b = (if truthy a then a else b)"

text \<open>
  \<open>String.prototype.toLowerCase\<close> belongs to the runtime, which lower-cases every cased
  character of Unicode. It is a parameter \<open>toLowerCase\<close> of every function that calls it,
  and nothing is assumed about it. On a string of ASCII code units the runtime lower-cases
  the letters \<open>A\<close>-\<open>Z\<close> and keeps the rest, which is \<open>lower_ascii\<close>: the examples, whose
  strings are ASCII, take it for the parameter.
\<close>

definition lower_unit :: "nat \<Rightarrow> nat" where
  "lower_unit c = (if 65 \<le> c \<and> c \<le> 90 then c + 32 else c)"

definition lower_ascii :: "jsstring \<Rightarrow> jsstring" where
  "lower_ascii s = map lower_unit s"

text \<open>The code units matched by \<open>\s\<close> and removed by \<open>trim\<close>.\<close>

definition is_space :: "nat \<Rightarrow> bool" where
  "is_space c = (c \<in> {9, 10, 11, 12, 13, 32, 160, 5760, 8232, 8233, 8239, 8287, 12288, 65279}
                 \<or> (8192 \<le> c \<and> c \<le> 8202))"

definition trim :: "jsstring \<Rightarrow> jsstring" where
  "trim s = rev (dropWhile is_space (rev (dropWhile is_space s)))"

text \<open>
  \<open>s.split(/\s+/)\<close>: every maximal run of white space is one separator; a leading or
  trailing run leaves an empty first or last piece, and the empty string gives \<open>['']\<close>.
\<close>

fun split_ws :: "jsstring \<Rightarrow> jsstring list" where
  "split_ws [] = [[]]"
| "split_ws (c # cs) =
     (if is_space c
      then (case cs of
              [] \<Rightarrow> [[], []]
            | d # _ \<Rightarrow> if is_space d then split_ws cs else [] # split_ws cs)
      else (case split_ws cs of
              [] \<Rightarrow> [[c]]
            | w # ws \<Rightarrow> (c # w) # ws))"

text \<open>\<open>xs.join(sep)\<close>.\<close>

fun join :: "jsstring \<Rightarrow> jsstring list \<Rightarrow> jsstring" where
  "join sep [] = []"
| "join sep [x] = x"
| "join sep (x # y # ys) = x @ sep @ join sep (y # ys)"

fun starts_with :: "jsstring \<Rightarrow> jsstring \<Rightarrow> bool" where
  "starts_with s [] = True"
| "starts_with [] (p # ps) = False"
| "starts_with (c # cs) (p # ps) = (c = p \<and> starts_with cs ps)"

text \<open>\<open>s.includes(pat)\<close>.\<close>

fun js_includes :: "jsstring \<Rightarrow> jsstring \<Rightarrow> bool" where
  "js_includes [] pat = (pat = [])"
| "js_includes (c # cs) pat = (starts_with (c # cs) pat \<or> js_includes cs pat)"

section \<open>Errors and provider calls\<close>

text \<open>
  A thrown error carries its \<open>message\<close> and, for a provider's HTTP error, the status
  \<open>error.response.status\<close>. A provider call either throws or returns the field the
  handler reads from the response (\<open>None\<close> when the optional chain gives undefined).
  The outcome of every call is given by an environment; request payloads are not modelled.
\<close>

record js_error =
  err_message :: jsstring
  err_status :: "nat option"

datatype 'a outcome = Throws js_error | Returns 'a

datatype provider =
    GoogleTranslate | OpenRouter | LibreTranslate | MyMemory
  | Gemini | OpenRouterFree | Overpass jsstring

definition new_Error :: "jsstring \<Rightarrow> js_error" where
  "new_Error m = \<lparr>err_message = m, err_status = None\<rparr>"

text \<open>The text a call delivers when it returns a non-empty string.\<close>

definition accepted :: "jsstring option outcome \<Rightarrow> jsstring option" where
  "accepted r = (case r of
       Throws e \<Rightarrow> None
     | Returns v \<Rightarrow> if truthy v then v else None)"

record config =
  OPENROUTER_API_KEY :: "jsstring option"
  OPENROUTER_DEFAULT_MODEL :: "jsstring option"

section \<open>Rate limiter\<close>

record entry =
  count :: nat
  resetAt :: int

type_synonym rate_store = "jsstring \<Rightarrow> entry option"

definition CHATBOT_WINDOW_MS :: int where
  "CHATBOT_WINDOW_MS = 60 * 1000"

definition CHATBOT_MAX_REQUESTS :: nat where
  "CHATBOT_MAX_REQUESTS = 50"

definition CHATBOT_PROVIDER_COOLDOWN_MS :: int where
  "CHATBOT_PROVIDER_COOLDOWN_MS = 1 * 1000"

record client =
  ip :: "jsstring option"
  x_forwarded_for :: "jsstring option"

text \<open>\<open>req.ip || req.headers['x-forwarded-for'] || 'unknown'\<close>\<close>

definition client_key :: "client \<Rightarrow> jsstring" where
  "client_key req =
     (case js_or (js_or (ip req) (x_forwarded_for req)) (Some (js ''unknown'')) of
        Some k \<Rightarrow> k
      | None \<Rightarrow> js ''unknown'')"

record throttle_body =
  th_error :: jsstring
  th_rateLimited :: bool
  th_retryAfterMs :: int
  th_windowMs :: int

text \<open>
  The middleware returns \<open>Some body\<close> when it answers with status 429 itself and \<open>None\<close>
  when it calls \<open>next()\<close>, together with the store it leaves. A missing entry, or one
  whose window has passed (\<open>now > entry.resetAt\<close>), is replaced in the store by a fresh
  one; \<open>entry.count += 1\<close> updates the entry held by the store.
\<close>

definition chatbotRateLimiter ::
  "int \<Rightarrow> client \<Rightarrow> rate_store \<Rightarrow> throttle_body option \<times> rate_store" where
  "chatbotRateLimiter now req store =
     (let key = client_key req;
          fresh = \<lparr>count = 0, resetAt = now + CHATBOT_WINDOW_MS\<rparr>;
          (e, store1) =
            (case store key of
               None \<Rightarrow> (fresh, store(key \<mapsto> fresh))
             | Some e0 \<Rightarrow> if now > resetAt e0 then (fresh, store(key \<mapsto> fresh))
                         else (e0, store))
      in if count e \<ge> CHATBOT_MAX_REQUESTS
         then (Some \<lparr>th_error = js ''Too many requests to chatbot. Please try again shortly.'',
                     th_rateLimited = True,
                     th_retryAfterMs = max (resetAt e - now) 0,
                     th_windowMs = CHATBOT_WINDOW_MS\<rparr>, store1)
         else (None, store1(key \<mapsto> e\<lparr>count := count e + 1\<rparr>)))"

text \<open>Successive calls of the middleware, each with its clock reading and client.\<close>

fun serve :: "(int \<times> client) list \<Rightarrow> rate_store \<Rightarrow> throttle_body option list \<times> rate_store" where
  "serve [] store = ([], store)"
| "serve ((now, req) # calls) store =
     (case chatbotRateLimiter now req store of
        (r, store1) \<Rightarrow> (case serve calls store1 of (rs, store2) \<Rightarrow> (r # rs, store2)))"

definition store_inv :: "rate_store \<Rightarrow> bool" where
  "store_inv store = (\<forall>k e. store k = Some e \<longrightarrow> count e \<le> CHATBOT_MAX_REQUESTS)"

section \<open>Offline chatbot fallback\<close>

definition beach_text :: jsstring where
  "beach_text =
     js ''Top Goa beaches: Baga (nightlife), Calangute (water sports), Anjuna (sunsets), Palolem (peaceful). Go early for parking and bring cash for shacks.''"

definition stay_text :: jsstring where
  "stay_text =
     js ''For stays: North Goa = nightlife (Baga/Calangute), Candolim/Sinquerim = quieter, Anjuna/Vagator = cafes. South Goa = peaceful (Palolem/Agonda/Colva). Book via TourGenious lodging to see verified listings.''"

definition weather_text :: jsstring where
  "weather_text =
     js ''Goa weather: Oct-Feb pleasant (22-32'' @ [0xB0] @ js ''C), Mar-May hot (30-36'' @ [0xB0] @ js ''C), Jun-Sep monsoon. Keep a light rain jacket in monsoon and book refundable stays.''"

definition food_text :: jsstring where
  "food_text =
     js ''Try Goan dishes: Fish thali, Cafreal, Xacuti, Vindaloo, Bebinca dessert. Ask shacks for today'' @ [0x2019] @ js ''s fresh catch; avoid plastic waste on beaches.''"

definition transport_text :: jsstring where
  "transport_text =
     js ''Getting around: Scooters are fastest for short hops; carry license and helmet. For airport '' @ [0x2192] @ js '' hotel, pre-book a taxi. Avoid late-night isolated rides; share live location.''"

definition emergency_text :: jsstring where
  "emergency_text =
     js ''Emergency: Dial 112 for police/medical. Keep a copy of your ID. In TourGenious, open Smart Assist '' @ [0x2192] @ js '' Emergency for quick contacts and location sharing.''"

definition generic_text :: jsstring where
  "generic_text =
     js ''I am your Goa Tourism assistant. Ask me about beaches, stays, food, transport, weather, or how to use TourGenious features (booking, translator, smart assist).''"

definition generateOfflineChatbotResponse ::
  "(jsstring \<Rightarrow> jsstring) \<Rightarrow> jsstring \<Rightarrow> jsstring" where
  "generateOfflineChatbotResponse toLowerCase message =
     (let lower = toLowerCase message;
          canned =
            (if js_includes lower (js ''beach'') then [beach_text] else [])
          @ (if js_includes lower (js ''hotel'') \<or> js_includes lower (js ''stay'')
                \<or> js_includes lower (js ''resort'') then [stay_text] else [])
          @ (if js_includes lower (js ''weather'') then [weather_text] else [])
          @ (if js_includes lower (js ''food'') \<or> js_includes lower (js ''restaurant'')
                \<or> js_includes lower (js ''eat'') then [food_text] else [])
          @ (if js_includes lower (js ''transport'') \<or> js_includes lower (js ''taxi'')
                \<or> js_includes lower (js ''cab'') \<or> js_includes lower (js ''scooter'')
             then [transport_text] else [])
          @ (if js_includes lower (js ''emergency'') \<or> js_includes lower (js ''help'')
             then [emergency_text] else [])
      in join (js '' '') (if canned = [] then [generic_text] else canned))"

section \<open>Chatbot endpoint\<close>

text \<open>
  The body of \<open>POST /api/chatbot\<close>. The handler returns its response, the providers it
  contacted in order, and the value it leaves in \<open>chatbotProviderCooldownUntil\<close>. The
  \<open>timestamp\<close> field of the responses is left out.
\<close>

record chatbot_request =
  message :: "jsstring option"
  req_context :: "jsstring option"

record chatbot_env =
  openrouter_chat :: "jsstring option outcome"
  gemini :: "jsstring option outcome"
  openrouter_free :: "jsstring option outcome"

record chat_body =
  cb_success :: bool
  cb_message :: jsstring
  cb_context :: jsstring
  cb_provider :: jsstring
  cb_fallback :: "bool option"
  cb_rateLimited :: "bool option"

datatype chat_response = Chat200 chat_body | Chat400 jsstring | Chat429 throttle_body

text \<open>\<open>const { context = 'travel' } = req.body\<close>: the default replaces only an absent field.\<close>

definition context_of :: "chatbot_request \<Rightarrow> jsstring" where
  "context_of req = (case req_context req of None \<Rightarrow> js ''travel'' | Some c \<Rightarrow> c)"

definition openrouter_model :: "config \<Rightarrow> jsstring" where
  "openrouter_model cfg =
     (case js_or (OPENROUTER_DEFAULT_MODEL cfg) (Some (js ''gpt-5.1-codex-max'')) of
        Some m \<Rightarrow> m
      | None \<Rightarrow> js ''gpt-5.1-codex-max'')"

definition chat_ok :: "chatbot_request \<Rightarrow> jsstring \<Rightarrow> jsstring \<Rightarrow> chat_response" where
  "chat_ok req botResponse prov =
     Chat200 \<lparr>cb_success = True, cb_message = botResponse, cb_context = context_of req,
              cb_provider = prov, cb_fallback = None, cb_rateLimited = None\<rparr>"

text \<open>\<open>providerStatus === 429 || providerStatus >= 500\<close>, false for an absent status.\<close>

definition retry_status :: "nat option \<Rightarrow> bool" where
  "retry_status providerStatus =
     (providerStatus = Some 429
      \<or> (case providerStatus of None \<Rightarrow> False | Some st \<Rightarrow> st \<ge> 500))"

text \<open>
  The request that the \<open>catch\<close> block writes for the free model has
  \<open>content: message\<close>. The constant \<open>message\<close> is declared in the \<open>try\<close> block and is
  not bound in the \<open>catch\<close> block, so evaluating the request throws a ReferenceError
  before \<open>axios.post\<close> is called, whatever the request of the client is.
\<close>

definition free_model_request :: "chatbot_request \<Rightarrow> js_error + jsstring" where
  "free_model_request req = Inl (new_Error (js ''message is not defined''))"

text \<open>
  The \<open>catch\<close> block: \<open>error\<close> is what the Gemini call threw (or the
  \<open>'Invalid chatbot response'\<close> error), \<open>calls\<close> the providers contacted so far. The
  inner \<open>try\<close> swallows the error of building the request; had the request been built,
  the free model would be contacted, with the outcome that \<open>env\<close> holds for it.
\<close>

definition chatbot_catch ::
  "(jsstring \<Rightarrow> jsstring) \<Rightarrow> config \<Rightarrow> chatbot_env \<Rightarrow> int \<Rightarrow> chatbot_request \<Rightarrow> js_error
     \<Rightarrow> provider list \<Rightarrow> int \<Rightarrow> chat_response \<times> provider list \<times> int" where
  "chatbot_catch toLowerCase cfg env now req error calls cooldown =
     (let providerStatus = err_status error;
          retry = (retry_status providerStatus \<and> truthy (OPENROUTER_API_KEY cfg));
          free = (if retry
                  then (case free_model_request req of
                          Inl referenceError \<Rightarrow> (None, [])
                        | Inr content \<Rightarrow> (accepted (openrouter_free env), [OpenRouterFree]))
                  else (None, []))
      in case fst free of
           Some content \<Rightarrow>
             (chat_ok req (trim content) (js ''openrouter-llama-free''),
              calls @ snd free, cooldown)
         | None \<Rightarrow>
             (Chat200 \<lparr>cb_success = True,
                       cb_message = generateOfflineChatbotResponse toLowerCase
                                      (str_of (js_or (message req) (Some []))),
                       cb_context = context_of req,
                       cb_provider = js ''offline-goa-guide'',
                       cb_fallback = Some True,
                       cb_rateLimited = Some (providerStatus = Some 429)\<rparr>,
              calls @ snd free,
              if providerStatus = Some 429 then now + CHATBOT_PROVIDER_COOLDOWN_MS
              else cooldown))"

definition chatbot_handler ::
  "(jsstring \<Rightarrow> jsstring) \<Rightarrow> config \<Rightarrow> chatbot_env \<Rightarrow> int \<Rightarrow> chatbot_request \<Rightarrow> int
     \<Rightarrow> chat_response \<times> provider list \<times> int" where
  "chatbot_handler toLowerCase cfg env now req cooldownUntil =
     (if \<not> truthy (message req)
      then (Chat400 (js ''Message is required''), [], cooldownUntil)
      else
        (let cooldown = 0;
             primary = truthy (OPENROUTER_API_KEY cfg);
             calls = (if primary then [OpenRouter] else [])
         in case (if primary then accepted (openrouter_chat env) else None) of
              Some content \<Rightarrow>
                (chat_ok req (trim content) (js ''openrouter:'' @ openrouter_model cfg),
                 calls, cooldown)
            | None \<Rightarrow>
                (case accepted (gemini env) of
                   Some reply \<Rightarrow>
                     (chat_ok req (trim reply) (js ''gemini-1.5-flash''),
                      calls @ [Gemini], cooldown)
                 | None \<Rightarrow>
                     chatbot_catch toLowerCase cfg env now req
                       (case gemini env of
                          Throws error \<Rightarrow> error
                        | Returns v \<Rightarrow> new_Error (js ''Invalid chatbot response''))
                       (calls @ [Gemini]) cooldown)))"

text \<open>The outcome that the environment holds for a provider of the chatbot chain.\<close>

definition chatbot_call :: "chatbot_env \<Rightarrow> provider \<Rightarrow> jsstring option outcome" where
  "chatbot_call env p =
     (case p of
        OpenRouter \<Rightarrow> openrouter_chat env
      | Gemini \<Rightarrow> gemini env
      | OpenRouterFree \<Rightarrow> openrouter_free env
      | _ \<Rightarrow> Returns None)"

text \<open>
  The two pieces of process-wide state, and the route as it is registered:
  \<open>app.post('/api/chatbot', async (req, res) => ...)\<close> has the handler as its only
  callback, so the rate limit store is neither read nor written.
\<close>

record server_state =
  chatbotRateLimitStore :: rate_store
  chatbotProviderCooldownUntil :: int

definition chatbot_route ::
  "(jsstring \<Rightarrow> jsstring) \<Rightarrow> config \<Rightarrow> chatbot_env \<Rightarrow> int \<Rightarrow> client \<Rightarrow> chatbot_request
     \<Rightarrow> server_state \<Rightarrow> chat_response \<times> provider list \<times> server_state" where
  "chatbot_route toLowerCase cfg env now cl req st =
     (case chatbot_handler toLowerCase cfg env now req (chatbotProviderCooldownUntil st) of
        (r, calls, cooldown) \<Rightarrow> (r, calls, st\<lparr>chatbotProviderCooldownUntil := cooldown\<rparr>))"


text \<open>
  Successive requests to the route, each with its clock reading, client and body; every
  provider call of the run has the outcome that \<open>env\<close> gives for the provider.
\<close>

fun chatbot_requests ::
  "(jsstring \<Rightarrow> jsstring) \<Rightarrow> config \<Rightarrow> chatbot_env
     \<Rightarrow> (int \<times> client \<times> chatbot_request) list \<Rightarrow> server_state
     \<Rightarrow> (chat_response \<times> provider list) list \<times> server_state" where
  "chatbot_requests toLowerCase cfg env [] st = ([], st)"
| "chatbot_requests toLowerCase cfg env ((now, cl, req) # rest) st =
     (case chatbot_route toLowerCase cfg env now cl req st of
        (r, calls, st1) \<Rightarrow>
          (case chatbot_requests toLowerCase cfg env rest st1 of
             (rs, st2) \<Rightarrow> ((r, calls) # rs, st2)))"

section \<open>Translation endpoint\<close>

subsection \<open>Offline phrase dictionaries\<close>

text \<open>
  \<open>fallbackTranslations\<close>, one association list per language pair in the order of
  \<open>Object.keys\<close>; a key written twice in the literal keeps its first position and
  takes its last value (the two values agree wherever a key is repeated). The values
  are given by their code units.
\<close>

definition english_hindi :: "(jsstring \<times> jsstring) list" where
  "english_hindi =
     [(js ''Hello'', [0x928, 0x92E, 0x938, 0x94D, 0x924, 0x947]),
      (js ''Hi'', [0x928, 0x92E, 0x938, 0x94D, 0x924, 0x947]),
      (js ''How are you?'', [0x906, 0x92A, 0x20, 0x915, 0x948, 0x938, 0x947, 0x20, 0x939, 0x948, 0x902, 0x3F]),
      (js ''What is your name?'', [0x906, 0x92A, 0x915, 0x93E, 0x20, 0x928, 0x93E, 0x92E, 0x20, 0x915, 0x94D, 0x92F, 0x93E, 0x20, 0x939, 0x948, 0x3F]),
      (js ''what is your name'', [0x906, 0x92A, 0x915, 0x93E, 0x20, 0x928, 0x93E, 0x92E, 0x20, 0x915, 0x94D, 0x92F, 0x93E, 0x20, 0x939, 0x948]),
      (js ''What is your name'', [0x906, 0x92A, 0x915, 0x93E, 0x20, 0x928, 0x93E, 0x92E, 0x20, 0x915, 0x94D, 0x92F, 0x93E, 0x20, 0x939, 0x948]),
      (js ''My name is'', [0x92E, 0x947, 0x930, 0x93E, 0x20, 0x928, 0x93E, 0x92E, 0x20, 0x939, 0x948]),
      (js ''Nice to meet you'', [0x906, 0x92A, 0x938, 0x947, 0x20, 0x92E, 0x93F, 0x932, 0x915, 0x930, 0x20, 0x916, 0x941, 0x936, 0x940, 0x20, 0x939, 0x941, 0x908]),
      (js ''Thank you'', [0x927, 0x928, 0x94D, 0x92F, 0x935, 0x93E, 0x926]),
      (js ''Thanks'', [0x927, 0x928, 0x94D, 0x92F, 0x935, 0x93E, 0x926]),
      (js ''Good morning'', [0x938, 0x941, 0x92A, 0x94D, 0x930, 0x92D, 0x93E, 0x924]),
      (js ''Good afternoon'', [0x928, 0x92E, 0x938, 0x94D, 0x924, 0x947]),
      (js ''Good evening'', [0x936, 0x941, 0x92D, 0x20, 0x938, 0x902, 0x927, 0x94D, 0x92F, 0x93E]),
      (js ''Good night'', [0x936, 0x941, 0x92D, 0x20, 0x930, 0x93E, 0x924, 0x94D, 0x930, 0x93F]),
      (js ''Welcome'', [0x938, 0x94D, 0x935, 0x93E, 0x917, 0x924, 0x20, 0x939, 0x948]),
      (js ''Please'', [0x915, 0x943, 0x92A, 0x92F, 0x93E]),
      (js ''Sorry'', [0x92E, 0x93E, 0x92B, 0x93C, 0x20, 0x915, 0x940, 0x91C, 0x93F, 0x90F]),
      (js ''Excuse me'', [0x92E, 0x93E, 0x92B, 0x93C, 0x20, 0x915, 0x930, 0x947, 0x902]),
      (js ''Yes'', [0x939, 0x93E, 0x901]),
      (js ''No'', [0x928, 0x939, 0x940, 0x902]),
      (js ''Where is'', [0x915, 0x939, 0x93E, 0x901, 0x20, 0x939, 0x948]),
      (js ''Where are you from?'', [0x906, 0x92A, 0x20, 0x915, 0x939, 0x93E, 0x901, 0x20, 0x938, 0x947, 0x20, 0x939, 0x948, 0x902, 0x3F]),
      (js ''How much'', [0x915, 0x93F, 0x924, 0x928, 0x93E]),
      (js ''How old are you?'', [0x906, 0x92A, 0x915, 0x940, 0x20, 0x909, 0x92E, 0x94D, 0x930, 0x20, 0x915, 0x94D, 0x92F, 0x93E, 0x20, 0x939, 0x948, 0x3F]),
      (js ''I love you'', [0x92E, 0x948, 0x902, 0x20, 0x924, 0x941, 0x92E, 0x938, 0x947, 0x20, 0x92A, 0x94D, 0x92F, 0x93E, 0x930, 0x20, 0x915, 0x930, 0x924, 0x93E, 0x20, 0x939, 0x942, 0x901]),
      (js ''Beautiful'', [0x938, 0x941, 0x902, 0x926, 0x930]),
      (js ''Delicious'', [0x938, 0x94D, 0x935, 0x93E, 0x926, 0x93F, 0x937, 0x94D, 0x91F]),
      (js ''Help'', [0x92E, 0x926, 0x926]),
      (js ''Water'', [0x92A, 0x93E, 0x928, 0x940]),
      (js ''Food'', [0x916, 0x93E, 0x928, 0x93E]),
      (js ''Beach'', [0x938, 0x92E, 0x941, 0x926, 0x94D, 0x930, 0x20, 0x924, 0x91F]),
      (js ''Hotel'', [0x939, 0x94B, 0x91F, 0x932]),
      (js ''Airport'', [0x939, 0x935, 0x93E, 0x908, 0x20, 0x905, 0x921, 0x94D, 0x921, 0x93E]),
      (js ''Station'', [0x938, 0x94D, 0x91F, 0x947, 0x936, 0x928]),
      (js ''Hospital'', [0x905, 0x938, 0x94D, 0x92A, 0x924, 0x93E, 0x932]),
      (js ''Police'', [0x92A, 0x941, 0x932, 0x93F, 0x938]),
      (js ''Market'', [0x92C, 0x93E, 0x91C, 0x93C, 0x93E, 0x930]),
      (js ''Restaurant'', [0x930, 0x947, 0x938, 0x94D, 0x91F, 0x94B, 0x930, 0x947, 0x902, 0x91F]),
      (js ''Taxi'', [0x91F, 0x948, 0x915, 0x94D, 0x938, 0x940]),
      (js ''Bus'', [0x92C, 0x938]),
      (js ''Train'', [0x930, 0x947, 0x932]),
      (js ''Money'', [0x92A, 0x948, 0x938, 0x93E]),
      (js ''Time'', [0x938, 0x92E, 0x92F]),
      (js ''Today'', [0x906, 0x91C]),
      (js ''Tomorrow'', [0x915, 0x932]),
      (js ''Yesterday'', [0x915, 0x932, 0x20, 0x28, 0x92C, 0x940, 0x924, 0x93E, 0x20, 0x939, 0x941, 0x906, 0x29])]"

definition english_konkani :: "(jsstring \<times> jsstring) list" where
  "english_konkani =
     [(js ''Hello'', [0x928, 0x92E, 0x938, 0x94D, 0x915, 0x93E, 0x930]),
      (js ''Hi'', [0x928, 0x92E, 0x938, 0x94D, 0x915, 0x93E, 0x930]),
      (js ''How are you?'', [0x924, 0x941, 0x92E, 0x940, 0x20, 0x915, 0x936, 0x947, 0x20, 0x906, 0x938, 0x93E, 0x924, 0x3F]),
      (js ''What is your name?'', [0x924, 0x941, 0x91D, 0x947, 0x20, 0x928, 0x93E, 0x902, 0x935, 0x20, 0x915, 0x93F, 0x924, 0x947, 0x902, 0x3F]),
      (js ''what is your name'', [0x924, 0x941, 0x91D, 0x947, 0x20, 0x928, 0x93E, 0x902, 0x935, 0x20, 0x915, 0x93F, 0x924, 0x947, 0x902]),
      (js ''What is your name'', [0x924, 0x941, 0x91D, 0x947, 0x20, 0x928, 0x93E, 0x902, 0x935, 0x20, 0x915, 0x93F, 0x924, 0x947, 0x902]),
      (js ''My name is'', [0x92E, 0x94D, 0x939, 0x91C, 0x947, 0x20, 0x928, 0x93E, 0x902, 0x935]),
      (js ''Nice to meet you'', [0x924, 0x941, 0x915, 0x93E, 0x20, 0x92D, 0x947, 0x91F, 0x942, 0x928, 0x20, 0x92C, 0x930, 0x947, 0x20, 0x926, 0x93F, 0x938, 0x932, 0x947]),
      (js ''Thank you'', [0x927, 0x928, 0x94D, 0x92F, 0x935, 0x93E, 0x926]),
      (js ''Thanks'', [0x927, 0x928, 0x94D, 0x92F, 0x935, 0x93E, 0x926]),
      (js ''Good morning'', [0x938, 0x941, 0x92A, 0x94D, 0x930, 0x92D, 0x93E, 0x924]),
      (js ''Good afternoon'', [0x926, 0x928, 0x92A, 0x93E, 0x930, 0x93E, 0x902, 0x20, 0x92C, 0x930, 0x947]),
      (js ''Good evening'', [0x938, 0x93E, 0x902, 0x91C, 0x947, 0x20, 0x92C, 0x930, 0x947]),
      (js ''Good night'', [0x936, 0x941, 0x92D, 0x20, 0x930, 0x93E, 0x924, 0x94D, 0x930, 0x93F]),
      (js ''Welcome'', [0x938, 0x94D, 0x935, 0x93E, 0x917, 0x924]),
      (js ''Please'', [0x915, 0x943, 0x92A, 0x92F, 0x93E]),
      (js ''Sorry'', [0x92E, 0x93E, 0x92B, 0x20, 0x915, 0x930, 0x93E, 0x924]),
      (js ''Excuse me'', [0x92E, 0x93E, 0x92B, 0x20, 0x915, 0x930, 0x93E, 0x924]),
      (js ''Yes'', [0x939, 0x93E, 0x902, 0x92F]),
      (js ''No'', [0x928, 0x93E]),
      (js ''Where is'', [0x915, 0x941, 0x924, 0x94D, 0x930, 0x20, 0x906, 0x938, 0x93E]),
      (js ''Where are you from?'', [0x924, 0x942, 0x902, 0x20, 0x915, 0x941, 0x924, 0x94D, 0x930, 0x93E, 0x902]),
      (js ''How much'', [0x915, 0x93F, 0x924, 0x940]),
      (js ''How old are you?'', [0x924, 0x941, 0x91D, 0x947, 0x20, 0x935, 0x930, 0x94D, 0x938, 0x20, 0x915, 0x93F, 0x924, 0x940, 0x3F]),
      (js ''I love you'', [0x939, 0x93E, 0x902, 0x935, 0x20, 0x924, 0x941, 0x915, 0x93E, 0x20, 0x92E, 0x94B, 0x917, 0x20, 0x915, 0x930, 0x924, 0x93E, 0x902]),
      (js ''Beautiful'', [0x938, 0x941, 0x902, 0x926, 0x930]),
      (js ''Delicious'', [0x930, 0x941, 0x91A, 0x940, 0x915]),
      (js ''Help'', [0x906, 0x926, 0x93E, 0x930]),
      (js ''Water'', [0x909, 0x926, 0x915]),
      (js ''Food'', [0x91C, 0x947, 0x935, 0x923]),
      (js ''Beach'', [0x915, 0x93F, 0x928, 0x93E, 0x930, 0x94B]),
      (js ''Hotel'', [0x927, 0x930, 0x94D, 0x92E, 0x936, 0x93E, 0x933, 0x93E]),
      (js ''Airport'', [0x935, 0x93F, 0x92E, 0x93E, 0x928, 0x924, 0x933]),
      (js ''Station'', [0x938, 0x94D, 0x925, 0x93E, 0x928, 0x915]),
      (js ''Hospital'', [0x930, 0x941, 0x917, 0x94D, 0x923, 0x93E, 0x932, 0x92F]),
      (js ''Police'', [0x92A, 0x94B, 0x932, 0x940, 0x938]),
      (js ''Market'', [0x92C, 0x93E, 0x91C, 0x93E, 0x930]),
      (js ''Restaurant'', [0x91C, 0x947, 0x935, 0x923, 0x918, 0x930]),
      (js ''Taxi'', [0x91F, 0x945, 0x915, 0x94D, 0x938, 0x940]),
      (js ''Bus'', [0x92C, 0x938]),
      (js ''Train'', [0x930, 0x947, 0x932, 0x94D, 0x935]),
      (js ''Money'', [0x92A, 0x948, 0x938, 0x947]),
      (js ''Time'', [0x935, 0x947, 0x933]),
      (js ''Today'', [0x906, 0x92F, 0x91C]),
      (js ''Tomorrow'', [0x92B, 0x93E, 0x932, 0x94D, 0x92F, 0x93E, 0x902]),
      (js ''Yesterday'', [0x915, 0x93E, 0x932])]"

definition english_marathi :: "(jsstring \<times> jsstring) list" where
  "english_marathi =
     [(js ''Hello'', [0x928, 0x92E, 0x938, 0x94D, 0x915, 0x93E, 0x930]),
      (js ''Hi'', [0x928, 0x92E, 0x938, 0x94D, 0x915, 0x93E, 0x930]),
      (js ''How are you?'', [0x924, 0x941, 0x92E, 0x94D, 0x939, 0x940, 0x20, 0x915, 0x938, 0x947, 0x20, 0x906, 0x939, 0x93E, 0x924, 0x3F]),
      (js ''What is your name?'', [0x924, 0x941, 0x92E, 0x91A, 0x947, 0x20, 0x928, 0x93E, 0x935, 0x20, 0x915, 0x93E, 0x92F, 0x3F]),
      (js ''what is your name'', [0x924, 0x941, 0x92E, 0x91A, 0x947, 0x20, 0x928, 0x93E, 0x935, 0x20, 0x915, 0x93E, 0x92F]),
      (js ''What is your name'', [0x924, 0x941, 0x92E, 0x91A, 0x947, 0x20, 0x928, 0x93E, 0x935, 0x20, 0x915, 0x93E, 0x92F]),
      (js ''My name is'', [0x92E, 0x93E, 0x91D, 0x947, 0x20, 0x928, 0x93E, 0x935]),
      (js ''Nice to meet you'', [0x924, 0x941, 0x92E, 0x94D, 0x939, 0x93E, 0x932, 0x93E, 0x20, 0x92D, 0x947, 0x91F, 0x942, 0x928, 0x20, 0x906, 0x928, 0x902, 0x926, 0x20, 0x91D, 0x93E, 0x932, 0x93E]),
      (js ''Thank you'', [0x927, 0x928, 0x94D, 0x92F, 0x935, 0x93E, 0x926]),
      (js ''Thanks'', [0x927, 0x928, 0x94D, 0x92F, 0x935, 0x93E, 0x926]),
      (js ''Good morning'', [0x938, 0x941, 0x92A, 0x94D, 0x930, 0x92D, 0x93E, 0x924]),
      (js ''Good afternoon'', [0x928, 0x92E, 0x938, 0x94D, 0x915, 0x93E, 0x930]),
      (js ''Good evening'', [0x936, 0x941, 0x92D, 0x20, 0x938, 0x902, 0x927, 0x94D, 0x92F, 0x93E]),
      (js ''Good night'', [0x936, 0x941, 0x92D, 0x20, 0x930, 0x93E, 0x924, 0x94D, 0x930, 0x93F]),
      (js ''Welcome'', [0x938, 0x94D, 0x935, 0x93E, 0x917, 0x924, 0x20, 0x906, 0x939, 0x947]),
      (js ''Please'', [0x915, 0x943, 0x92A, 0x92F, 0x93E]),
      (js ''Sorry'', [0x92E, 0x93E, 0x92B, 0x20, 0x915, 0x930, 0x93E]),
      (js ''Excuse me'', [0x92E, 0x93E, 0x92B, 0x20, 0x915, 0x930, 0x93E]),
      (js ''Yes'', [0x939, 0x94B, 0x92F]),
      (js ''No'', [0x928, 0x93E, 0x939, 0x940]),
      (js ''Where is'', [0x915, 0x941, 0x920, 0x947, 0x20, 0x906, 0x939, 0x947]),
      (js ''Where are you from?'', [0x924, 0x941, 0x92E, 0x94D, 0x939, 0x940, 0x20, 0x915, 0x941, 0x920, 0x91A, 0x947, 0x20, 0x906, 0x939, 0x93E, 0x924, 0x3F]),
      (js ''How much'', [0x915, 0x93F, 0x924, 0x940]),
      (js ''How old are you?'', [0x924, 0x941, 0x92E, 0x91A, 0x947, 0x20, 0x935, 0x92F, 0x20, 0x915, 0x93F, 0x924, 0x940, 0x3F]),
      (js ''I love you'', [0x92E, 0x940, 0x20, 0x924, 0x941, 0x91D, 0x94D, 0x92F, 0x93E, 0x935, 0x930, 0x20, 0x92A, 0x94D, 0x930, 0x947, 0x92E, 0x20, 0x915, 0x930, 0x924, 0x94B]),
      (js ''Beautiful'', [0x938, 0x941, 0x902, 0x926, 0x930]),
      (js ''Delicious'', [0x91A, 0x935, 0x93F, 0x937, 0x94D, 0x91F]),
      (js ''Help'', [0x92E, 0x926, 0x924]),
      (js ''Water'', [0x92A, 0x93E, 0x923, 0x940]),
      (js ''Food'', [0x905, 0x928, 0x94D, 0x928]),
      (js ''Beach'', [0x938, 0x92E, 0x941, 0x926, 0x94D, 0x930, 0x915, 0x93F, 0x928, 0x93E, 0x930, 0x93E]),
      (js ''Hotel'', [0x939, 0x949, 0x91F, 0x947, 0x932]),
      (js ''Airport'', [0x935, 0x93F, 0x92E, 0x93E, 0x928, 0x924, 0x933]),
      (js ''Station'', [0x938, 0x94D, 0x925, 0x93E, 0x928, 0x915]),
      (js ''Hospital'', [0x930, 0x941, 0x917, 0x94D, 0x923, 0x93E, 0x932, 0x92F]),
      (js ''Police'', [0x92A, 0x94B, 0x932, 0x940, 0x938]),
      (js ''Market'', [0x92C, 0x93E, 0x91C, 0x93E, 0x930]),
      (js ''Restaurant'', [0x91C, 0x947, 0x935, 0x923, 0x918, 0x930]),
      (js ''Taxi'', [0x91F, 0x945, 0x915, 0x94D, 0x938, 0x940]),
      (js ''Bus'', [0x92C, 0x938]),
      (js ''Train'', [0x930, 0x947, 0x932, 0x94D, 0x935, 0x947]),
      (js ''Money'', [0x92A, 0x948, 0x938, 0x947]),
      (js ''Time'', [0x935, 0x947, 0x933]),
      (js ''Today'', [0x906, 0x91C]),
      (js ''Tomorrow'', [0x909, 0x926, 0x94D, 0x92F, 0x93E]),
      (js ''Yesterday'', [0x915, 0x93E, 0x932])]"

definition fallbackTranslations :: "jsstring \<Rightarrow> (jsstring \<times> jsstring) list option" where
  "fallbackTranslations key =
     (if key = js ''English-Hindi'' then Some english_hindi
      else if key = js ''English-Konkani'' then Some english_konkani
      else if key = js ''English-Marathi'' then Some english_marathi
      else None)"

text \<open>
  The module \<open>./translationPatterns\<close> is not part of the sources at hand: it is a
  parameter, a table from the language pair to a table from words to translations (an
  entry is given as it prints in the joined text).
\<close>

type_synonym pattern_table = "jsstring \<Rightarrow> (jsstring \<Rightarrow> jsstring option) option"

text \<open>\<open>translationMap[k]\<close> for a key \<open>k\<close> found among \<open>Object.keys(translationMap)\<close>.\<close>

definition dict_get :: "(jsstring \<times> jsstring) list \<Rightarrow> jsstring \<Rightarrow> jsstring" where
  "dict_get tm k = str_of (map_of tm k)"

text \<open>One round of the loop over the words: the piece pushed, and whether it is a translation.\<close>

definition translate_word ::
  "(jsstring \<Rightarrow> jsstring) \<Rightarrow> pattern_table \<Rightarrow> jsstring \<Rightarrow> (jsstring \<times> jsstring) list
     \<Rightarrow> jsstring \<Rightarrow> jsstring \<times> bool" where
  "translate_word toLowerCase translationPatterns patternKey translationMap word =
     (case (case translationPatterns patternKey of
              None \<Rightarrow> None
            | Some patterns \<Rightarrow> if truthy (patterns word) then patterns word else None) of
        Some t \<Rightarrow> (t, True)
      | None \<Rightarrow>
          (let foundKey = find (\<lambda>key. js_includes (toLowerCase key) word
                                      \<or> js_includes word (toLowerCase key))
                               (map fst translationMap)
           in if truthy foundKey then (dict_get translationMap (str_of foundKey), True)
              else (word, False)))"

text \<open>
  \<open>translationMap[text]\<close> reads an object: when \<open>text\<close> is not one of its keys, the
  lookup still finds the members that every object inherits from \<open>Object.prototype\<close>.
  Such a member is a function (an object for \<open>__proto__\<close>), so it is truthy and not a
  string. The other lookups of the handler use keys that contain \<open>-\<close> or that come
  from \<open>Object.keys\<close>, and find listed keys only.
\<close>

definition object_prototype_names :: "jsstring list" where
  "object_prototype_names =
     [js ''constructor'', js ''__defineGetter__'', js ''__defineSetter__'',
      js ''hasOwnProperty'', js ''__lookupGetter__'', js ''__lookupSetter__'',
      js ''isPrototypeOf'', js ''propertyIsEnumerable'', js ''toString'', js ''valueOf'',
      js ''__proto__'', js ''toLocaleString'']"

text \<open>
  The value of \<open>translatedText\<close>: a string, or the inherited member of that name. A
  member that is a function is left out of the body by \<open>res.json\<close>, and the object that
  \<open>__proto__\<close> names is sent as \<open>{}\<close>: the body then carries no text in the field.
\<close>

datatype jsvalue = Text jsstring | Inherited jsstring

definition offline_translate ::
  "(jsstring \<Rightarrow> jsstring) \<Rightarrow> pattern_table \<Rightarrow> jsstring \<Rightarrow> jsstring \<Rightarrow> jsstring
     \<Rightarrow> jsvalue" where
  "offline_translate toLowerCase translationPatterns fromLanguage toLanguage txt =
     (let key = fromLanguage @ js ''-'' @ toLanguage
      in case fallbackTranslations key of
           None \<Rightarrow> Text txt
         | Some translationMap \<Rightarrow>
             if truthy (map_of translationMap txt) then Text (dict_get translationMap txt)
             else if txt \<in> set object_prototype_names then Inherited txt
             else
               (let lowerText = toLowerCase txt;
                    exactKey = find (\<lambda>key. toLowerCase key = lowerText) (map fst translationMap)
                in if truthy exactKey then Text (dict_get translationMap (str_of exactKey))
                   else
                     (let words = split_ws (toLowerCase txt);
                          pieces = map (translate_word toLowerCase translationPatterns key
                                          translationMap) words;
                          hasTranslations = list_ex snd pieces
                      in if hasTranslations then Text (join (js '' '') (map fst pieces))
                         else Text txt)))"

subsection \<open>The handler\<close>

record translate_request =
  req_text :: "jsstring option"
  fromLanguage :: "jsstring option"
  toLanguage :: "jsstring option"

record translate_env =
  google :: "jsstring option outcome"
  openrouter_translate :: "jsstring option outcome"
  libretranslate :: "jsstring option outcome"
  mymemory :: "jsstring option outcome"

record translate_body =
  tr_success :: bool
  tr_originalText :: jsstring
  tr_translatedText :: jsvalue
  tr_fromLanguage :: jsstring
  tr_toLanguage :: jsstring
  tr_provider :: "jsstring option"
  tr_fallback :: "bool option"
  tr_message :: "jsstring option"

datatype translate_response = Translate200 translate_body | Translate400 jsstring

definition translate_ok :: "translate_request \<Rightarrow> jsstring \<Rightarrow> jsstring \<Rightarrow> translate_response" where
  "translate_ok req translatedText prov =
     Translate200 \<lparr>tr_success = True,
                   tr_originalText = str_of (req_text req),
                   tr_translatedText = Text translatedText,
                   tr_fromLanguage = str_of (fromLanguage req),
                   tr_toLanguage = str_of (toLanguage req),
                   tr_provider = Some prov, tr_fallback = None, tr_message = None\<rparr>"

text \<open>
  The \<open>catch\<close> block, entered with the error of the first provider: the keyed provider
  when a key is configured, the two free providers, then the dictionaries.
\<close>

definition translate_catch ::
  "(jsstring \<Rightarrow> jsstring) \<Rightarrow> config \<Rightarrow> pattern_table \<Rightarrow> translate_env \<Rightarrow> int
     \<Rightarrow> translate_request \<Rightarrow> js_error \<Rightarrow> provider list \<Rightarrow> int
     \<Rightarrow> translate_response \<times> provider list \<times> int" where
  "translate_catch toLowerCase cfg translationPatterns env now req error calls cooldown =
     (let providerStatus = err_status error;
          keyed = truthy (OPENROUTER_API_KEY cfg);
          calls1 = calls @ (if keyed then [OpenRouter] else [])
      in case (if keyed then accepted (openrouter_translate env) else None) of
           Some content \<Rightarrow>
             (translate_ok req (trim content) (js ''openrouter:'' @ openrouter_model cfg),
              calls1, cooldown)
         | None \<Rightarrow>
            (case accepted (libretranslate env) of
               Some translatedText \<Rightarrow>
                 (translate_ok req (trim translatedText) (js ''libretranslate''),
                  calls1 @ [LibreTranslate], cooldown)
             | None \<Rightarrow>
                (case accepted (mymemory env) of
                   Some translatedText \<Rightarrow>
                     (translate_ok req (trim translatedText) (js ''mymemory''),
                      calls1 @ [LibreTranslate, MyMemory], cooldown)
                 | None \<Rightarrow>
                     (Translate200
                        \<lparr>tr_success = True,
                         tr_originalText = str_of (req_text req),
                         tr_translatedText =
                           offline_translate toLowerCase translationPatterns
                             (str_of (fromLanguage req))
                             (str_of (toLanguage req)) (str_of (req_text req)),
                         tr_fromLanguage = str_of (fromLanguage req),
                         tr_toLanguage = str_of (toLanguage req),
                         tr_provider = None,
                         tr_fallback = Some True,
                         tr_message = Some (if providerStatus = Some 429
                                            then js ''Rate limited. Using fallback translation.''
                                            else js ''Using fallback translation'')\<rparr>,
                      calls1 @ [LibreTranslate, MyMemory],
                      if providerStatus = Some 429 then now + CHATBOT_PROVIDER_COOLDOWN_MS
                      else cooldown))))"

definition translate_handler ::
  "(jsstring \<Rightarrow> jsstring) \<Rightarrow> config \<Rightarrow> pattern_table \<Rightarrow> translate_env \<Rightarrow> int
     \<Rightarrow> translate_request \<Rightarrow> int \<Rightarrow> translate_response \<times> provider list \<times> int" where
  "translate_handler toLowerCase cfg translationPatterns env now req cooldownUntil =
     (if \<not> truthy (req_text req) \<or> \<not> truthy (fromLanguage req) \<or> \<not> truthy (toLanguage req)
      then (Translate400 (js ''Missing required parameters: text, fromLanguage, toLanguage''),
            [], cooldownUntil)
      else
        (case accepted (google env) of
           Some result \<Rightarrow>
             (translate_ok req (trim result) (js ''google-translate-ai''),
              [GoogleTranslate], cooldownUntil)
         | None \<Rightarrow>
             translate_catch toLowerCase cfg translationPatterns env now req
               (case google env of
                  Throws error \<Rightarrow> error
                | Returns v \<Rightarrow> new_Error (js ''No translation result from AI''))
               [GoogleTranslate] cooldownUntil))"

text \<open>The outcome that the environment holds for a provider of the translation chain.\<close>

definition translate_call :: "translate_env \<Rightarrow> provider \<Rightarrow> jsstring option outcome" where
  "translate_call env p =
     (case p of
        GoogleTranslate \<Rightarrow> google env
      | OpenRouter \<Rightarrow> openrouter_translate env
      | LibreTranslate \<Rightarrow> libretranslate env
      | MyMemory \<Rightarrow> mymemory env
      | _ \<Rightarrow> Returns None)"

definition translate_route ::
  "(jsstring \<Rightarrow> jsstring) \<Rightarrow> config \<Rightarrow> pattern_table \<Rightarrow> translate_env \<Rightarrow> int
     \<Rightarrow> translate_request \<Rightarrow> server_state
     \<Rightarrow> translate_response \<times> provider list \<times> server_state" where
  "translate_route toLowerCase cfg translationPatterns env now req st =
     (case translate_handler toLowerCase cfg translationPatterns env now req
             (chatbotProviderCooldownUntil st) of
        (r, calls, cooldown) \<Rightarrow> (r, calls, st\<lparr>chatbotProviderCooldownUntil := cooldown\<rparr>))"

section \<open>Nearby places endpoint\<close>

text \<open>
  Coordinates and distances are real numbers: the arithmetic of the handler is read
  exactly, where the server computes in double precision (and where the server's
  arithmetic gives \<open>NaN\<close>, a place it then drops at the radius filter, the model has
  some number). The Overpass query text sent to the endpoints (built from \<open>type\<close>)
  is not modelled.
\<close>

record places_request =
  latitude :: "real option"
  longitude :: "real option"
  radius :: "real option"

record element =
  el_id :: "int option"
  el_lat :: "real option"
  el_lon :: "real option"
  el_center :: "(real \<times> real) option"
  el_tags :: "(jsstring \<Rightarrow> jsstring option) option"

record place =
  p_id :: int
  p_name :: jsstring
  p_category :: jsstring
  p_distance :: real
  p_address :: jsstring
  p_lat :: real
  p_lon :: real
  p_phone :: "jsstring option"
  p_website :: "jsstring option"
  p_openingHours :: "jsstring option"

datatype places_response =
    Places200 "place list" nat
  | Places400 jsstring
  | Places500 jsstring jsstring jsstring

definition atan2 :: "real \<Rightarrow> real \<Rightarrow> real" where
  "atan2 y x =
     (if x > 0 then arctan (y / x)
      else if x < 0 \<and> y \<ge> 0 then arctan (y / x) + pi
      else if x < 0 then arctan (y / x) - pi
      else if y > 0 then pi / 2
      else if y < 0 then - pi / 2
      else 0)"

definition math_round :: "real \<Rightarrow> real" where
  "math_round x = of_int \<lfloor>x + 1 / 2\<rfloor>"

definition haversine_km :: "real \<Rightarrow> real \<Rightarrow> real \<Rightarrow> real \<Rightarrow> real" where
  "haversine_km latitude0 longitude0 lat lon =
     (let R = 6371;
          dLat = (lat - latitude0) * pi / 180;
          dLon = (lon - longitude0) * pi / 180;
          a = sin (dLat / 2) * sin (dLat / 2)
              + cos (latitude0 * pi / 180) * cos (lat * pi / 180)
                * sin (dLon / 2) * sin (dLon / 2);
          c = 2 * atan2 (sqrt a) (sqrt (1 - a))
      in R * c)"

definition has_name :: "element \<Rightarrow> bool" where
  "has_name el = (case el_tags el of None \<Rightarrow> False | Some tags \<Rightarrow> truthy (tags (js ''name'')))"

text \<open>The error of \<open>element.id.toString()\<close> on an element without \<open>id\<close>.\<close>

definition id_TypeError :: js_error where
  "id_TypeError = new_Error
     (js ''Cannot read properties of undefined (reading '' @ [0x27] @ js ''toString''
      @ [0x27] @ js '')'')"

text \<open>
  The callback of \<open>map\<close>, for an element that passed the name filter. The identifier is
  kept as the number that \<open>toString\<close> prints.
\<close>

definition to_place :: "real \<Rightarrow> real \<Rightarrow> element \<Rightarrow> js_error + place" where
  "to_place latitude0 longitude0 el =
     (let tags = (case el_tags el of None \<Rightarrow> (\<lambda>k. None) | Some t \<Rightarrow> t);
          lat = (if truthy_num (el_lat el) then num_of (el_lat el)
                 else (case el_center el of Some c \<Rightarrow> fst c | None \<Rightarrow> latitude0));
          lon = (if truthy_num (el_lon el) then num_of (el_lon el)
                 else (case el_center el of Some c \<Rightarrow> snd c | None \<Rightarrow> longitude0));
          distance = haversine_km latitude0 longitude0 lat lon;
          category = (if truthy (tags (js ''amenity'')) then str_of (tags (js ''amenity''))
                      else if truthy (tags (js ''tourism'')) then str_of (tags (js ''tourism''))
                      else if truthy (tags (js ''shop'')) then js ''shopping''
                      else js ''place'')
      in case el_id el of
           None \<Rightarrow> Inl id_TypeError
         | Some n \<Rightarrow>
             Inr \<lparr>p_id = n,
                  p_name = str_of (tags (js ''name'')),
                  p_category = category,
                  p_distance = math_round (distance * 10) / 10,
                  p_address =
                    (if truthy (tags (js ''addr:street''))
                     then str_of (tags (js ''addr:street''))
                          @ (if truthy (tags (js ''addr:housenumber''))
                             then js '' '' @ str_of (tags (js ''addr:housenumber''))
                             else [])
                     else str_of (js_or (tags (js ''addr:city'')) (Some (js ''Near you'')))),
                  p_lat = lat,
                  p_lon = lon,
                  p_phone = js_or (tags (js ''phone'')) (tags (js ''contact:phone'')),
                  p_website = js_or (tags (js ''website'')) (tags (js ''contact:website'')),
                  p_openingHours = tags (js ''opening_hours'')\<rparr>)"

text \<open>\<open>map\<close> with a callback that may throw: the first error ends it.\<close>

fun map_throwing :: "('a \<Rightarrow> js_error + 'b) \<Rightarrow> 'a list \<Rightarrow> js_error + 'b list" where
  "map_throwing f [] = Inr []"
| "map_throwing f (x # xs) =
     (case f x of
        Inl e \<Rightarrow> Inl e
      | Inr y \<Rightarrow> (case map_throwing f xs of Inl e \<Rightarrow> Inl e | Inr ys \<Rightarrow> Inr (y # ys)))"

text \<open>
  Filter by name, map, filter by radius, sort by distance, keep the first 50. The sort
  of the runtime is stable, as insertion by key is.
\<close>

definition nearby_places :: "real \<Rightarrow> real \<Rightarrow> real \<Rightarrow> element list \<Rightarrow> js_error + place list" where
  "nearby_places latitude0 longitude0 searchRadius elements =
     (case map_throwing (to_place latitude0 longitude0) (filter has_name elements) of
        Inl e \<Rightarrow> Inl e
      | Inr mapped \<Rightarrow>
          (let places = filter (\<lambda>place. p_distance place \<le> searchRadius / 1000) mapped;
               sortedPlaces = take 50 (sort_key p_distance places)
           in Inr sortedPlaces))"

definition overpassUrls :: "jsstring list" where
  "overpassUrls =
     [js ''https://overpass.kumi.systems/api/interpreter'',
      js ''https://overpass-api.de/api/interpreter'',
      js ''https://maps.mail.ru/osm/tools/overpass/api/interpreter'']"

text \<open>
  The loop over the endpoints: the first response wins, an error is kept in
  \<open>lastError\<close> and the next endpoint is tried. A response carries
  \<open>response.data.elements\<close>, or \<open>None\<close> when \<open>data\<close> or \<open>elements\<close> is missing.
\<close>

fun try_endpoints ::
  "(jsstring \<Rightarrow> 'a outcome) \<Rightarrow> jsstring list \<Rightarrow> js_error option
     \<Rightarrow> 'a option \<times> js_error option \<times> provider list" where
  "try_endpoints post [] lastError = (None, lastError, [])"
| "try_endpoints post (overpassUrl # urls) lastError =
     (case post overpassUrl of
        Returns response \<Rightarrow> (Some response, lastError, [Overpass overpassUrl])
      | Throws error \<Rightarrow>
          (case try_endpoints post urls (Some error) of
             (response, lastError1, calls) \<Rightarrow> (response, lastError1, Overpass overpassUrl # calls)))"

definition places_catch :: "js_error \<Rightarrow> places_response" where
  "places_catch error =
     Places500 (js ''Failed to fetch nearby places'') (err_message error)
       (js ''OpenStreetMap Overpass API may be temporarily unavailable. Please try again.'')"

definition search_radius :: "places_request \<Rightarrow> real" where
  "search_radius req = (if truthy_num (radius req) then num_of (radius req) else 5000)"

definition places_handler ::
  "(jsstring \<Rightarrow> element list option outcome) \<Rightarrow> places_request
     \<Rightarrow> places_response \<times> provider list" where
  "places_handler post req =
     (if \<not> truthy_num (latitude req) \<or> \<not> truthy_num (longitude req)
      then (Places400 (js ''Missing required parameters: latitude, longitude''), [])
      else
        (case try_endpoints post overpassUrls None of
           (None, lastError, calls) \<Rightarrow>
             (places_catch (case lastError of
                              Some error \<Rightarrow> error
                            | None \<Rightarrow> new_Error (js ''All Overpass API servers failed'')),
              calls)
         | (Some None, lastError, calls) \<Rightarrow> (Places200 [] 0, calls)
         | (Some (Some elements), lastError, calls) \<Rightarrow>
             (case nearby_places (num_of (latitude req)) (num_of (longitude req))
                     (search_radius req) elements of
                Inl error \<Rightarrow> (places_catch error, calls)
              | Inr sortedPlaces \<Rightarrow> (Places200 sortedPlaces (length sortedPlaces), calls))))"

section \<open>Example data\<close>

text \<open>
  An Overpass node that has coordinates and a \<open>name\<close> tag only, and the place that the
  handler makes of such a node at a given distance.
\<close>

definition named_node :: "int \<Rightarrow> real \<Rightarrow> real \<Rightarrow> jsstring \<Rightarrow> element" where
  "named_node n lat lon name =
     \<lparr>el_id = Some n, el_lat = Some lat, el_lon = Some lon, el_center = None,
      el_tags = Some ((\<lambda>k. None)(js ''name'' \<mapsto> name))\<rparr>"

definition plain_place :: "int \<Rightarrow> real \<Rightarrow> real \<Rightarrow> jsstring \<Rightarrow> real \<Rightarrow> place" where
  "plain_place n lat lon name distance =
     \<lparr>p_id = n, p_name = name, p_category = js ''place'', p_distance = distance,
      p_address = js ''Near you'', p_lat = lat, p_lon = lon, p_phone = None,
      p_website = None, p_openingHours = None\<rparr>"

section \<open>Properties of the rate limiter\<close>

lemma limiter_opens_window:
  assumes "store (client_key req) = None \<or> (\<exists>e. store (client_key req) = Some e \<and> resetAt e < now)"
  shows "chatbotRateLimiter now req store =
           (None, store(client_key req \<mapsto> \<lparr>count = 1, resetAt = now + CHATBOT_WINDOW_MS\<rparr>))"
  using assms
  by (auto simp: chatbotRateLimiter_def Let_def CHATBOT_MAX_REQUESTS_def split: option.splits)

lemma limiter_admits:
  assumes "store (client_key req) = Some e" "now \<le> resetAt e" "count e < CHATBOT_MAX_REQUESTS"
  shows "chatbotRateLimiter now req store =
           (None, store(client_key req \<mapsto> e\<lparr>count := count e + 1\<rparr>))"
  using assms by (simp add: chatbotRateLimiter_def Let_def)

lemma limiter_denies:
  assumes "store (client_key req) = Some e" "now \<le> resetAt e" "CHATBOT_MAX_REQUESTS \<le> count e"
  shows "chatbotRateLimiter now req store =
           (Some \<lparr>th_error = js ''Too many requests to chatbot. Please try again shortly.'',
                  th_rateLimited = True,
                  th_retryAfterMs = resetAt e - now,
                  th_windowMs = CHATBOT_WINDOW_MS\<rparr>, store)"
  using assms by (simp add: chatbotRateLimiter_def Let_def max_def)

lemma limiter_other_key:
  assumes "client_key req \<noteq> k"
  shows "snd (chatbotRateLimiter now req store) k = store k"
  using assms
  by (auto simp: chatbotRateLimiter_def Let_def split: option.splits prod.splits)

lemma limiter_inv:
  assumes "store_inv store"
  shows "store_inv (snd (chatbotRateLimiter now req store))"
  using assms
  by (auto simp: chatbotRateLimiter_def Let_def store_inv_def CHATBOT_MAX_REQUESTS_def
           split: option.splits prod.splits if_splits)

lemma snd_serve_Cons:
  "snd (serve ((now, req) # calls) store) = snd (serve calls (snd (chatbotRateLimiter now req store)))"
  by (simp split: prod.splits)

lemma fst_serve_Cons:
  "fst (serve ((now, req) # calls) store) =
     fst (chatbotRateLimiter now req store) # fst (serve calls (snd (chatbotRateLimiter now req store)))"
  by (simp split: prod.splits)

lemma serve_inv: "store_inv store \<Longrightarrow> store_inv (snd (serve calls store))"
proof (induction calls arbitrary: store)
  case Nil
  then show ?case by simp
next
  case (Cons c calls)
  obtain now req where c: "c = (now, req)" by (cases c)
  have "store_inv (snd (chatbotRateLimiter now req store))"
    using limiter_inv[OF Cons.prems] .
  from Cons.IH[OF this] show ?case unfolding c snd_serve_Cons .
qed

lemma run_within:
  assumes "store k = Some e"
    and "\<forall>c\<in>set calls. client_key (snd c) = k \<longrightarrow> fst c \<le> resetAt e"
    and "count e + length (filter (\<lambda>c. client_key (snd c) = k) calls) \<le> CHATBOT_MAX_REQUESTS"
  shows "snd (serve calls store) k
           = Some (e\<lparr>count := count e + length (filter (\<lambda>c. client_key (snd c) = k) calls)\<rparr>)
         \<and> (\<forall>i<length calls. client_key (snd (calls ! i)) = k
                \<longrightarrow> fst (serve calls store) ! i = None)"
  using assms
proof (induction calls arbitrary: store e)
  case Nil
  then show ?case by simp
next
  case (Cons c calls)
  obtain now req where c: "c = (now, req)" by (cases c)
  let ?st1 = "snd (chatbotRateLimiter now req store)"
  show ?case
  proof (cases "client_key req = k")
    case True
    have lt: "count e < CHATBOT_MAX_REQUESTS" using Cons.prems(3) c True by simp
    have le: "now \<le> resetAt e" using Cons.prems(2) c True by simp
    have step: "chatbotRateLimiter now req store
                  = (None, store(k \<mapsto> e\<lparr>count := count e + 1\<rparr>))"
      using limiter_admits[of store req e now] Cons.prems(1) le lt True by simp
    let ?e1 = "e\<lparr>count := count e + 1\<rparr>"
    have a1: "?st1 k = Some ?e1" using step by simp
    have a2: "\<forall>c\<in>set calls. client_key (snd c) = k \<longrightarrow> fst c \<le> resetAt ?e1"
      using Cons.prems(2) by simp
    have a3: "count ?e1 + length (filter (\<lambda>c. client_key (snd c) = k) calls)
                \<le> CHATBOT_MAX_REQUESTS"
      using Cons.prems(3) c True by simp
    have ih: "snd (serve calls ?st1) k
                = Some (?e1\<lparr>count := count ?e1 + length (filter (\<lambda>c. client_key (snd c) = k) calls)\<rparr>)
              \<and> (\<forall>i<length calls. client_key (snd (calls ! i)) = k
                     \<longrightarrow> fst (serve calls ?st1) ! i = None)"
      using a1 a2 a3 by (rule Cons.IH)
    have r0: "fst (chatbotRateLimiter now req store) = None" using step by simp
    show ?thesis
      unfolding c snd_serve_Cons fst_serve_Cons
      using ih True r0 by (auto simp: nth_Cons split: nat.splits)
  next
    case False
    have a1: "?st1 k = Some e" using limiter_other_key[OF False] Cons.prems(1) by simp
    have a2: "\<forall>c\<in>set calls. client_key (snd c) = k \<longrightarrow> fst c \<le> resetAt e"
      using Cons.prems(2) by simp
    have a3: "count e + length (filter (\<lambda>c. client_key (snd c) = k) calls)
                \<le> CHATBOT_MAX_REQUESTS"
      using Cons.prems(3) c False by simp
    have ih: "snd (serve calls ?st1) k
                = Some (e\<lparr>count := count e + length (filter (\<lambda>c. client_key (snd c) = k) calls)\<rparr>)
              \<and> (\<forall>i<length calls. client_key (snd (calls ! i)) = k
                     \<longrightarrow> fst (serve calls ?st1) ! i = None)"
      using a1 a2 a3 by (rule Cons.IH)
    show ?thesis
      unfolding c snd_serve_Cons fst_serve_Cons
      using ih False by (auto simp: nth_Cons split: nat.splits)
  qed
qed

lemma run_window:
  assumes "store k = None \<or> (\<exists>e. store k = Some e \<and> resetAt e < t0)"
    and "map fst (filter (\<lambda>c. client_key (snd c) = k) calls) = t0 # ts"
    and "\<forall>t\<in>set ts. t \<le> t0 + CHATBOT_WINDOW_MS"
    and "Suc (length ts) \<le> CHATBOT_MAX_REQUESTS"
  shows "snd (serve calls store) k
           = Some \<lparr>count = Suc (length ts), resetAt = t0 + CHATBOT_WINDOW_MS\<rparr>
         \<and> (\<forall>i<length calls. client_key (snd (calls ! i)) = k
                \<longrightarrow> fst (serve calls store) ! i = None)"
  using assms
proof (induction calls arbitrary: store)
  case Nil
  then show ?case by simp
next
  case (Cons c calls)
  obtain now req where c: "c = (now, req)" by (cases c)
  let ?st1 = "snd (chatbotRateLimiter now req store)"
  show ?case
  proof (cases "client_key req = k")
    case True
    have now: "now = t0" and rest: "map fst (filter (\<lambda>c. client_key (snd c) = k) calls) = ts"
      using Cons.prems(2) c True by simp_all
    let ?e1 = "\<lparr>count = 1, resetAt = t0 + CHATBOT_WINDOW_MS\<rparr>"
    have step: "chatbotRateLimiter now req store = (None, store(k \<mapsto> ?e1))"
      using limiter_opens_window[of store req now] Cons.prems(1) True now by simp
    have len: "length (filter (\<lambda>c. client_key (snd c) = k) calls) = length ts"
      using rest by (metis length_map)
    have a1: "?st1 k = Some ?e1" using step by simp
    have a2: "\<forall>c\<in>set calls. client_key (snd c) = k \<longrightarrow> fst c \<le> resetAt ?e1"
    proof (intro ballI impI)
      fix c' assume "c' \<in> set calls" "client_key (snd c') = k"
      then have "fst c' \<in> set (map fst (filter (\<lambda>c. client_key (snd c) = k) calls))"
        by auto
      then show "fst c' \<le> resetAt ?e1" using rest Cons.prems(3) by simp
    qed
    have a3: "count ?e1 + length (filter (\<lambda>c. client_key (snd c) = k) calls)
                \<le> CHATBOT_MAX_REQUESTS"
      using len Cons.prems(4) by simp
    have w: "snd (serve calls ?st1) k
                = Some (?e1\<lparr>count := count ?e1 + length (filter (\<lambda>c. client_key (snd c) = k) calls)\<rparr>)
              \<and> (\<forall>i<length calls. client_key (snd (calls ! i)) = k
                     \<longrightarrow> fst (serve calls ?st1) ! i = None)"
      using a1 a2 a3 by (rule run_within)
    have r0: "fst (chatbotRateLimiter now req store) = None" using step by simp
    show ?thesis
      unfolding c snd_serve_Cons fst_serve_Cons
      using w True r0 len by (auto simp: nth_Cons split: nat.splits)
  next
    case False
    have a1: "?st1 k = None \<or> (\<exists>e. ?st1 k = Some e \<and> resetAt e < t0)"
      using limiter_other_key[OF False] Cons.prems(1) by simp
    have a2: "map fst (filter (\<lambda>c. client_key (snd c) = k) calls) = t0 # ts"
      using Cons.prems(2) c False by simp
    have ih: "snd (serve calls ?st1) k
                = Some \<lparr>count = Suc (length ts), resetAt = t0 + CHATBOT_WINDOW_MS\<rparr>
              \<and> (\<forall>i<length calls. client_key (snd (calls ! i)) = k
                     \<longrightarrow> fst (serve calls ?st1) ! i = None)"
      using a1 a2 Cons.prems(3) Cons.prems(4) by (rule Cons.IH)
    show ?thesis
      unfolding c snd_serve_Cons fst_serve_Cons
      using ih False by (auto simp: nth_Cons split: nat.splits)
  qed
qed

text \<open>
  C5. A client whose call at \<open>t0\<close> opens a window (no entry, or an entry whose window
  has passed) and who makes \<open>CHATBOT_MAX_REQUESTS\<close> calls in all, none later than the
  reset time \<open>t0 + CHATBOT_WINDOW_MS\<close>, has every one of them admitted, whatever other
  clients do in between. The next call of that client at a clock reading \<open>now\<close> in the
  window (\<open>t0 \<le> now \<le> t0 + CHATBOT_WINDOW_MS\<close>) is denied, the store is left as it is,
  and \<open>retryAfterMs\<close> is the time left to the reset, between \<open>0\<close> and the window length.
  A call after the reset time is admitted again, with a fresh entry counting that call.
\<close>

theorem rate_limiter_quota_window:
  assumes opens: "store k = None \<or> (\<exists>e. store k = Some e \<and> resetAt e < t0)"
    and times: "map fst (filter (\<lambda>c. client_key (snd c) = k) calls) = t0 # ts"
    and quota: "length (t0 # ts) = CHATBOT_MAX_REQUESTS"
    and within: "\<forall>t\<in>set ts. t \<le> t0 + CHATBOT_WINDOW_MS"
    and key: "client_key req = k"
  shows "(\<forall>i<length calls. client_key (snd (calls ! i)) = k
            \<longrightarrow> fst (serve calls store) ! i = None)
       \<and> (\<forall>now. t0 \<le> now \<and> now \<le> t0 + CHATBOT_WINDOW_MS \<longrightarrow>
             (\<exists>body. chatbotRateLimiter now req (snd (serve calls store))
                        = (Some body, snd (serve calls store))
                    \<and> th_rateLimited body
                    \<and> th_windowMs body = CHATBOT_WINDOW_MS
                    \<and> th_retryAfterMs body = t0 + CHATBOT_WINDOW_MS - now
                    \<and> 0 \<le> th_retryAfterMs body
                    \<and> th_retryAfterMs body \<le> CHATBOT_WINDOW_MS))
       \<and> (\<forall>now. t0 + CHATBOT_WINDOW_MS < now \<longrightarrow>
             chatbotRateLimiter now req (snd (serve calls store))
               = (None, (snd (serve calls store))
                          (k \<mapsto> \<lparr>count = 1, resetAt = now + CHATBOT_WINDOW_MS\<rparr>)))"
proof -
  let ?st = "snd (serve calls store)"
  let ?e = "\<lparr>count = CHATBOT_MAX_REQUESTS, resetAt = t0 + CHATBOT_WINDOW_MS\<rparr>"
  have len: "Suc (length ts) \<le> CHATBOT_MAX_REQUESTS" using quota by simp
  have run: "?st k = Some \<lparr>count = Suc (length ts), resetAt = t0 + CHATBOT_WINDOW_MS\<rparr>
             \<and> (\<forall>i<length calls. client_key (snd (calls ! i)) = k
                    \<longrightarrow> fst (serve calls store) ! i = None)"
    using opens times within len by (rule run_window)
  have ent: "?st (client_key req) = Some ?e" using run quota key by simp
  have deny: "\<exists>body. chatbotRateLimiter now req ?st = (Some body, ?st)
                    \<and> th_rateLimited body
                    \<and> th_windowMs body = CHATBOT_WINDOW_MS
                    \<and> th_retryAfterMs body = t0 + CHATBOT_WINDOW_MS - now
                    \<and> 0 \<le> th_retryAfterMs body
                    \<and> th_retryAfterMs body \<le> CHATBOT_WINDOW_MS"
    if "t0 \<le> now \<and> now \<le> t0 + CHATBOT_WINDOW_MS" for now
    using limiter_denies[of ?st req ?e now] ent that by simp
  have again: "chatbotRateLimiter now req ?st
                 = (None, ?st(k \<mapsto> \<lparr>count = 1, resetAt = now + CHATBOT_WINDOW_MS\<rparr>))"
    if "t0 + CHATBOT_WINDOW_MS < now" for now
    using limiter_opens_window[of ?st req now] ent that key by simp
  show ?thesis using run deny again by blast
qed

text \<open>
  Fifty calls of one client, the first at 1000 ms: a call at 31000 ms is denied with
  30000 ms to wait, a call at 61001 ms is admitted.
\<close>

theorem rate_limiter_quota_window_witness:
  "(let req = \<lparr>ip = Some (js ''10.0.0.7''), x_forwarded_for = None\<rparr>;
        calls = (1000, req) # replicate 49 (2000, req);
        st = snd (serve calls (\<lambda>k. None))
    in client_key req = js ''10.0.0.7''
       \<and> map fst (filter (\<lambda>c. client_key (snd c) = js ''10.0.0.7'') calls)
           = 1000 # replicate 49 2000
       \<and> length (1000 # replicate 49 (2000 :: int)) = CHATBOT_MAX_REQUESTS
       \<and> (\<exists>body. chatbotRateLimiter 31000 req st = (Some body, st)
                  \<and> th_retryAfterMs body = 30000)
       \<and> fst (chatbotRateLimiter 61001 req st) = None)"
proof -
  let ?req = "\<lparr>ip = Some (js ''10.0.0.7''), x_forwarded_for = None\<rparr>"
  let ?calls = "(1000, ?req) # replicate 49 (2000, ?req)"
  have key: "client_key ?req = js ''10.0.0.7''"
    by (simp add: client_key_def js_or_def truthy_def js_def)
  have times: "map fst (filter (\<lambda>c. client_key (snd c) = js ''10.0.0.7'') ?calls)
                 = 1000 # replicate 49 2000"
    using key by simp
  have quota: "length (1000 # replicate 49 (2000 :: int)) = CHATBOT_MAX_REQUESTS"
    by (simp add: CHATBOT_MAX_REQUESTS_def)
  have within: "\<forall>t\<in>set (replicate 49 2000). t \<le> 1000 + CHATBOT_WINDOW_MS"
    by (simp add: CHATBOT_WINDOW_MS_def)
  have opens: "(\<lambda>k. None) (js ''10.0.0.7'') = None
               \<or> (\<exists>e. (\<lambda>k. None) (js ''10.0.0.7'') = Some e \<and> resetAt e < 1000)"
    by simp
  note inst = rate_limiter_quota_window[OF opens times quota within key]
  have d: "\<exists>body. chatbotRateLimiter 31000 ?req (snd (serve ?calls (\<lambda>k. None)))
                      = (Some body, snd (serve ?calls (\<lambda>k. None)))
                  \<and> th_retryAfterMs body = 30000"
    using inst[THEN conjunct2, THEN conjunct1, rule_format, of 31000]
    by (auto simp add: CHATBOT_WINDOW_MS_def simp del: serve.simps)
  have a: "fst (chatbotRateLimiter 61001 ?req (snd (serve ?calls (\<lambda>k. None)))) = None"
    using inst[THEN conjunct2, THEN conjunct2, rule_format, of 61001]
    by (simp add: CHATBOT_WINDOW_MS_def del: serve.simps)
  show ?thesis unfolding Let_def using key times quota d a by blast
qed

text \<open>
  C10. No stored count exceeds \<open>CHATBOT_MAX_REQUESTS\<close>: this holds of every store reached
  from the empty one, and one call of the middleware keeps it. The call touches the
  entry of its own client only; when it admits, the count in force (that of the stored
  entry, or \<open>0\<close> for a fresh window) was below the quota and is stored increased by
  exactly one; when it denies, the store, and so the entry's count and reset time, is
  unchanged.
\<close>

theorem rate_store_count_bounded:
  "store_inv (snd (serve calls (\<lambda>k. None)))
   \<and> (store_inv store \<longrightarrow> chatbotRateLimiter now req store = (r, store') \<longrightarrow>
        store_inv store'
        \<and> (\<forall>k. k \<noteq> client_key req \<longrightarrow> store' k = store k)
        \<and> (r = None \<longrightarrow>
             (\<exists>c ra. c < CHATBOT_MAX_REQUESTS
                 \<and> store' (client_key req) = Some \<lparr>count = c + 1, resetAt = ra\<rparr>
                 \<and> (case store (client_key req) of
                       None \<Rightarrow> c = 0 \<and> ra = now + CHATBOT_WINDOW_MS
                     | Some e \<Rightarrow> if now > resetAt e
                                 then c = 0 \<and> ra = now + CHATBOT_WINDOW_MS
                                 else c = count e \<and> ra = resetAt e)))
        \<and> (r \<noteq> None \<longrightarrow> store' = store))"
proof -
  have init: "store_inv (\<lambda>k. None)" by (simp add: store_inv_def)
  have reach: "store_inv (snd (serve calls (\<lambda>k. None)))" using init by (rule serve_inv)
  have step: "store_inv store'
        \<and> (\<forall>k. k \<noteq> client_key req \<longrightarrow> store' k = store k)
        \<and> (r = None \<longrightarrow>
             (\<exists>c ra. c < CHATBOT_MAX_REQUESTS
                 \<and> store' (client_key req) = Some \<lparr>count = c + 1, resetAt = ra\<rparr>
                 \<and> (case store (client_key req) of
                       None \<Rightarrow> c = 0 \<and> ra = now + CHATBOT_WINDOW_MS
                     | Some e \<Rightarrow> if now > resetAt e
                                 then c = 0 \<and> ra = now + CHATBOT_WINDOW_MS
                                 else c = count e \<and> ra = resetAt e)))
        \<and> (r \<noteq> None \<longrightarrow> store' = store)"
    if inv: "store_inv store" and run: "chatbotRateLimiter now req store = (r, store')"
  proof (intro conjI)
    show "store_inv store'" using limiter_inv[OF inv, of now req] run by simp
    show "\<forall>k. k \<noteq> client_key req \<longrightarrow> store' k = store k"
      using limiter_other_key[of req _ now store] run by auto
    show "r = None \<longrightarrow>
             (\<exists>c ra. c < CHATBOT_MAX_REQUESTS
                 \<and> store' (client_key req) = Some \<lparr>count = c + 1, resetAt = ra\<rparr>
                 \<and> (case store (client_key req) of
                       None \<Rightarrow> c = 0 \<and> ra = now + CHATBOT_WINDOW_MS
                     | Some e \<Rightarrow> if now > resetAt e
                                 then c = 0 \<and> ra = now + CHATBOT_WINDOW_MS
                                 else c = count e \<and> ra = resetAt e))"
      using run
      by (auto simp: chatbotRateLimiter_def Let_def CHATBOT_MAX_REQUESTS_def
               split: option.splits if_splits)
    show "r \<noteq> None \<longrightarrow> store' = store"
      using run
      by (auto simp: chatbotRateLimiter_def Let_def CHATBOT_MAX_REQUESTS_def
               split: option.splits if_splits)
  qed
  show ?thesis using reach step by blast
qed

text \<open>A client at the quota, inside its window: the call is denied and nothing changes.\<close>

theorem rate_store_count_bounded_witness:
  "(let req = \<lparr>ip = Some (js ''10.0.0.7''), x_forwarded_for = None\<rparr>;
        store = (\<lambda>k. None)(js ''10.0.0.7'' \<mapsto> \<lparr>count = 50, resetAt = 5000\<rparr>)
    in store_inv store
       \<and> fst (chatbotRateLimiter 1000 req store) \<noteq> None
       \<and> snd (chatbotRateLimiter 1000 req store) = store
       \<and> store_inv (snd (chatbotRateLimiter 1000 req store)))"
proof -
  let ?req = "\<lparr>ip = Some (js ''10.0.0.7''), x_forwarded_for = None\<rparr>"
  let ?store = "(\<lambda>k. None)(js ''10.0.0.7'' \<mapsto> \<lparr>count = 50, resetAt = 5000\<rparr>)"
  have inv: "store_inv ?store"
    by (simp add: store_inv_def CHATBOT_MAX_REQUESTS_def)
  have key: "client_key ?req = js ''10.0.0.7''"
    by (simp add: client_key_def js_or_def truthy_def js_def)
  have denied: "fst (chatbotRateLimiter 1000 ?req ?store) \<noteq> None"
    by (simp add: chatbotRateLimiter_def Let_def key CHATBOT_MAX_REQUESTS_def)
  have run: "chatbotRateLimiter 1000 ?req ?store
               = (fst (chatbotRateLimiter 1000 ?req ?store),
                  snd (chatbotRateLimiter 1000 ?req ?store))"
    by simp
  note inst = rate_store_count_bounded[of "[]" ?store 1000 ?req
                "fst (chatbotRateLimiter 1000 ?req ?store)"
                "snd (chatbotRateLimiter 1000 ?req ?store)",
                THEN conjunct2, rule_format, OF inv run]
  show ?thesis unfolding Let_def using inv denied inst by blast
qed

section \<open>Facts about the string operations\<close>

lemma starts_with_iff: "starts_with s p \<longleftrightarrow> (\<exists>post. s = p @ post)"
  by (induction s p rule: starts_with.induct) auto

lemma js_includes_iff: "js_includes s p \<longleftrightarrow> (\<exists>pre post. s = pre @ p @ post)"
proof (induction s)
  case Nil
  then show ?case by auto
next
  case (Cons c cs)
  show ?case
  proof
    assume "js_includes (c # cs) p"
    then consider "starts_with (c # cs) p" | "js_includes cs p" by auto
    then show "\<exists>pre post. c # cs = pre @ p @ post"
    proof cases
      case 1
      then obtain post where "c # cs = p @ post" using starts_with_iff by blast
      then have "c # cs = [] @ p @ post" by simp
      then show ?thesis by blast
    next
      case 2
      then obtain pre post where "cs = pre @ p @ post" using Cons.IH by blast
      then have "c # cs = (c # pre) @ p @ post" by simp
      then show ?thesis by blast
    qed
  next
    assume "\<exists>pre post. c # cs = pre @ p @ post"
    then obtain pre post where eq: "c # cs = pre @ p @ post" by blast
    show "js_includes (c # cs) p"
    proof (cases pre)
      case Nil
      then have "starts_with (c # cs) p" using eq starts_with_iff by auto
      then show ?thesis by simp
    next
      case (Cons a pre')
      then have "cs = pre' @ p @ post" using eq by simp
      then have "js_includes cs p" using Cons.IH by blast
      then show ?thesis by simp
    qed
  qed
qed

lemma join_Cons: "\<exists>rest. join sep (x # xs) = x @ rest"
  by (cases xs) auto

lemma join_nonempty: "x \<in> set xs \<Longrightarrow> x \<noteq> [] \<Longrightarrow> join sep xs \<noteq> []"
  by (induction sep xs rule: join.induct) auto

lemma join_all_nonempty:
  assumes "xs \<noteq> []" and "\<forall>x\<in>set xs. x \<noteq> []"
  shows "join sep xs \<noteq> []"
proof -
  from assms(1) obtain x where "x \<in> set xs" by (cases xs) auto
  then show ?thesis using assms(2) join_nonempty by blast
qed

section \<open>Properties of the chatbot endpoint\<close>

lemma offline_beach_first:
  assumes "js_includes (toLowerCase m) (js ''beach'')"
  shows "\<exists>rest. generateOfflineChatbotResponse toLowerCase m = beach_text @ rest"
  using assms join_Cons[of "js '' ''" beach_text]
  by (simp add: generateOfflineChatbotResponse_def Let_def)

text \<open>
  The \<open>catch\<close> block contacts no provider and always gives the offline answer.
\<close>

lemma chatbot_catch_offline:
  "chatbot_catch toLowerCase cfg env now req error calls cd =
     (Chat200 \<lparr>cb_success = True,
               cb_message = generateOfflineChatbotResponse toLowerCase
                              (str_of (js_or (message req) (Some []))),
               cb_context = context_of req,
               cb_provider = js ''offline-goa-guide'',
               cb_fallback = Some True,
               cb_rateLimited = Some (err_status error = Some 429)\<rparr>,
      calls,
      if err_status error = Some 429 then now + CHATBOT_PROVIDER_COOLDOWN_MS else cd)"
  by (simp add: chatbot_catch_def free_model_request_def Let_def)

lemma str_of_message:
  "truthy (message req) \<Longrightarrow> str_of (js_or (message req) (Some [])) = str_of (message req)"
  by (simp add: js_or_def)

lemma chatbot_fallback_response:
  assumes msg: "truthy (message req)"
    and fail: "\<forall>p\<in>set (fst (snd (chatbot_handler toLowerCase cfg env now req cd))).
                 accepted (chatbot_call env p) = None"
  shows "\<exists>rl. fst (chatbot_handler toLowerCase cfg env now req cd) =
           Chat200 \<lparr>cb_success = True,
                    cb_message = generateOfflineChatbotResponse toLowerCase
                                   (str_of (message req)),
                    cb_context = context_of req,
                    cb_provider = js ''offline-goa-guide'',
                    cb_fallback = Some True,
                    cb_rateLimited = Some rl\<rparr>"
proof -
  let ?primary = "truthy (OPENROUTER_API_KEY cfg)"
  let ?calls = "if ?primary then [OpenRouter] else []"
  let ?error = "case gemini env of Throws error \<Rightarrow> error
                | Returns v \<Rightarrow> new_Error (js ''Invalid chatbot response'')"
  have p1: "(if ?primary then accepted (openrouter_chat env) else None) = None"
  proof (rule ccontr)
    assume "(if ?primary then accepted (openrouter_chat env) else None) \<noteq> None"
    then obtain c where c: "?primary" "accepted (openrouter_chat env) = Some c"
      by (auto split: if_splits)
    then have "fst (snd (chatbot_handler toLowerCase cfg env now req cd)) = [OpenRouter]"
      using msg by (simp add: chatbot_handler_def Let_def)
    then show False using fail c by (simp add: chatbot_call_def)
  qed
  have p2: "accepted (gemini env) = None"
  proof (rule ccontr)
    assume "accepted (gemini env) \<noteq> None"
    then obtain r where r: "accepted (gemini env) = Some r" by auto
    then have "fst (snd (chatbot_handler toLowerCase cfg env now req cd)) = ?calls @ [Gemini]"
      using msg p1 by (simp add: chatbot_handler_def Let_def)
    then show False using fail r by (simp add: chatbot_call_def)
  qed
  have run: "chatbot_handler toLowerCase cfg env now req cd
               = chatbot_catch toLowerCase cfg env now req ?error (?calls @ [Gemini]) 0"
    using msg p1 p2 by (simp add: chatbot_handler_def Let_def)
  show ?thesis
    unfolding run chatbot_catch_offline using str_of_message[OF msg] by simp
qed

text \<open>
  C8. A non-empty message that, lower-cased by the runtime, includes \<open>beach\<close>, when every
  provider that the handler contacts fails (throws, or returns no text), is answered
  with status 200 by a body whose \<open>message\<close> begins with the beach paragraph, with
  \<open>fallback = true\<close> and \<open>provider = 'offline-goa-guide'\<close>. This holds for every
  lower-casing function, so for the runtime's.
\<close>

theorem chatbot_beach_fallback:
  assumes msg: "message req = Some m" "m \<noteq> []"
    and beach: "js_includes (toLowerCase m) (js ''beach'')"
    and fail: "\<forall>p\<in>set (fst (snd (chatbot_handler toLowerCase cfg env now req cd))).
                 accepted (chatbot_call env p) = None"
  shows "\<exists>body rest. fst (chatbot_handler toLowerCase cfg env now req cd) = Chat200 body
           \<and> cb_success body
           \<and> cb_message body = beach_text @ rest
           \<and> cb_fallback body = Some True
           \<and> cb_provider body = js ''offline-goa-guide''"
proof -
  have t: "truthy (message req)" using msg by (simp add: truthy_def)
  obtain rest where
    r: "generateOfflineChatbotResponse toLowerCase (str_of (message req)) = beach_text @ rest"
    using offline_beach_first[of toLowerCase m] beach msg by (auto simp: str_of_def)
  from chatbot_fallback_response[OF t fail] r show ?thesis by auto
qed

lemma canned_texts_nonempty:
  "beach_text \<noteq> []" "stay_text \<noteq> []" "weather_text \<noteq> []" "food_text \<noteq> []"
  "transport_text \<noteq> []" "emergency_text \<noteq> []" "generic_text \<noteq> []"
  by (simp_all add: beach_text_def stay_text_def weather_text_def food_text_def
        transport_text_def emergency_text_def generic_text_def js_def)

lemma bucket_nonempty: "t \<noteq> [] \<Longrightarrow> \<forall>x\<in>set (if c then [t] else []). x \<noteq> []"
  by simp

lemma offline_response_nonempty: "generateOfflineChatbotResponse toLowerCase m \<noteq> []"
proof -
  let ?lower = "toLowerCase m"
  let ?canned =
     "(if js_includes ?lower (js ''beach'') then [beach_text] else [])
      @ (if js_includes ?lower (js ''hotel'') \<or> js_includes ?lower (js ''stay'')
            \<or> js_includes ?lower (js ''resort'') then [stay_text] else [])
      @ (if js_includes ?lower (js ''weather'') then [weather_text] else [])
      @ (if js_includes ?lower (js ''food'') \<or> js_includes ?lower (js ''restaurant'')
            \<or> js_includes ?lower (js ''eat'') then [food_text] else [])
      @ (if js_includes ?lower (js ''transport'') \<or> js_includes ?lower (js ''taxi'')
            \<or> js_includes ?lower (js ''cab'') \<or> js_includes ?lower (js ''scooter'')
         then [transport_text] else [])
      @ (if js_includes ?lower (js ''emergency'') \<or> js_includes ?lower (js ''help'')
         then [emergency_text] else [])"
  let ?out = "if ?canned = [] then [generic_text] else ?canned"
  have eq: "generateOfflineChatbotResponse toLowerCase m = join (js '' '') ?out"
    unfolding generateOfflineChatbotResponse_def Let_def by (rule refl)
  have ne: "?out \<noteq> []" by (cases "?canned = []") simp_all
  have canned: "\<forall>x\<in>set ?canned. x \<noteq> []"
    unfolding set_append ball_Un
    by (intro conjI bucket_nonempty canned_texts_nonempty)
  have "\<forall>x\<in>set ?out. x \<noteq> []"
  proof (cases "?canned = []")
    case True
    then show ?thesis using canned_texts_nonempty(7) by simp
  next
    case False
    then show ?thesis using canned by presburger
  qed
  with ne show ?thesis unfolding eq by (rule join_all_nonempty)
qed

text \<open>
  A key is configured, the first model times out and Gemini answers 429: the two
  providers contacted fail. The free model, which would answer, is never asked.
\<close>

theorem chatbot_beach_fallback_witness:
  "\<exists>body rest.
     fst (chatbot_handler lower_ascii
            \<lparr>OPENROUTER_API_KEY = Some (js ''sk-or-1''), OPENROUTER_DEFAULT_MODEL = None\<rparr>
            \<lparr>openrouter_chat = Throws (new_Error (js ''timeout of 15000ms exceeded'')),
             gemini = Throws \<lparr>err_message = js ''Request failed with status code 429'',
                               err_status = Some 429\<rparr>,
             openrouter_free = Returns (Some (js ''Try Anjuna.''))\<rparr> 0
            \<lparr>message = Some (js ''Best BEACH near Panaji?''), req_context = None\<rparr> 0)
       = Chat200 body
     \<and> cb_message body = beach_text @ rest
     \<and> cb_fallback body = Some True
     \<and> cb_provider body = js ''offline-goa-guide''"
proof -
  let ?cfg = "\<lparr>OPENROUTER_API_KEY = Some (js ''sk-or-1''), OPENROUTER_DEFAULT_MODEL = None\<rparr>"
  let ?env = "\<lparr>openrouter_chat = Throws (new_Error (js ''timeout of 15000ms exceeded'')),
               gemini = Throws \<lparr>err_message = js ''Request failed with status code 429'',
                                 err_status = Some 429\<rparr>,
               openrouter_free = Returns (Some (js ''Try Anjuna.''))\<rparr>"
  let ?req = "\<lparr>message = Some (js ''Best BEACH near Panaji?''), req_context = None\<rparr>"
  have msg: "message ?req = Some (js ''Best BEACH near Panaji?'')"
      "js ''Best BEACH near Panaji?'' \<noteq> []"
    by (simp_all add: js_def)
  have beach: "js_includes (lower_ascii (js ''Best BEACH near Panaji?'')) (js ''beach'')"
    by (simp add: lower_ascii_def lower_unit_def js_def)
  have calls: "fst (snd (chatbot_handler lower_ascii ?cfg ?env 0 ?req 0)) = [OpenRouter, Gemini]"
    by (simp add: chatbot_handler_def chatbot_catch_offline Let_def truthy_def accepted_def
          js_def)
  have fail: "\<forall>p\<in>set (fst (snd (chatbot_handler lower_ascii ?cfg ?env 0 ?req 0))).
                accepted (chatbot_call ?env p) = None"
    unfolding calls by (simp add: chatbot_call_def accepted_def)
  from chatbot_beach_fallback[OF msg beach fail] show ?thesis by blast
qed

text \<open>
  What the handler answers to a request with a message does not depend on the cooldown
  it finds, and what the route answers does not depend on the rate limit store, which
  it leaves as it is.
\<close>

lemma chatbot_handler_cooldown_unread:
  assumes "truthy (message req)"
  shows "chatbot_handler toLowerCase cfg env now req c1
           = chatbot_handler toLowerCase cfg env now req c2"
  using assms by (simp add: chatbot_handler_def)

lemma chatbot_route_store_unused:
  "chatbotRateLimitStore (snd (snd (chatbot_route toLowerCase cfg env now cl req st)))
     = chatbotRateLimitStore st
   \<and> fst (chatbot_route toLowerCase cfg env now cl req (st\<lparr>chatbotRateLimitStore := store\<rparr>))
     = fst (chatbot_route toLowerCase cfg env now cl req st)
   \<and> fst (snd (chatbot_route toLowerCase cfg env now cl req (st\<lparr>chatbotRateLimitStore := store\<rparr>)))
     = fst (snd (chatbot_route toLowerCase cfg env now cl req st))"
  by (simp add: chatbot_route_def split: prod.splits)

lemma gemini_answers_step:
  assumes "m \<noteq> []" "reply \<noteq> []"
  shows "chatbot_route toLowerCase \<lparr>OPENROUTER_API_KEY = None, OPENROUTER_DEFAULT_MODEL = None\<rparr>
           \<lparr>openrouter_chat = ra, gemini = Returns (Some reply), openrouter_free = rb\<rparr>
           now cl \<lparr>message = Some m, req_context = None\<rparr> st
         = (Chat200 \<lparr>cb_success = True, cb_message = trim reply, cb_context = js ''travel'',
                     cb_provider = js ''gemini-1.5-flash'', cb_fallback = None,
                     cb_rateLimited = None\<rparr>,
            [Gemini], st\<lparr>chatbotProviderCooldownUntil := 0\<rparr>)"
  using assms
  by (simp add: chatbot_route_def chatbot_handler_def truthy_def accepted_def chat_ok_def
        context_of_def Let_def)

lemma gemini_answers_run:
  assumes "m \<noteq> []" "reply \<noteq> []"
  shows "fst (chatbot_requests toLowerCase \<lparr>OPENROUTER_API_KEY = None, OPENROUTER_DEFAULT_MODEL = None\<rparr>
           \<lparr>openrouter_chat = ra, gemini = Returns (Some reply), openrouter_free = rb\<rparr>
           (replicate k (now, cl, \<lparr>message = Some m, req_context = None\<rparr>)) st)
         = replicate k
             (Chat200 \<lparr>cb_success = True, cb_message = trim reply, cb_context = js ''travel'',
                       cb_provider = js ''gemini-1.5-flash'', cb_fallback = None,
                       cb_rateLimited = None\<rparr>,
              [Gemini])
       \<and> chatbotRateLimitStore
           (snd (chatbot_requests toLowerCase \<lparr>OPENROUTER_API_KEY = None, OPENROUTER_DEFAULT_MODEL = None\<rparr>
              \<lparr>openrouter_chat = ra, gemini = Returns (Some reply), openrouter_free = rb\<rparr>
              (replicate k (now, cl, \<lparr>message = Some m, req_context = None\<rparr>)) st))
         = chatbotRateLimitStore st"
proof (induction k arbitrary: st)
  case 0
  then show ?case by simp
next
  case (Suc k)
  show ?case
    using Suc.IH[of "st\<lparr>chatbotProviderCooldownUntil := 0\<rparr>"]
    by (auto simp: gemini_answers_step[OF assms] split: prod.splits)
qed

text \<open>
  C2. The route holds the handler alone, so \<open>chatbotRateLimiter\<close> never runs: of 51
  requests of one client at the same clock reading, with Gemini answering, every one,
  the 51st included, reaches Gemini and is answered with status 200, and the rate limit
  store still has no entry for the client.
\<close>

theorem chatbot_route_not_rate_limited:
  "fst (chatbot_requests toLowerCase \<lparr>OPENROUTER_API_KEY = None, OPENROUTER_DEFAULT_MODEL = None\<rparr>
          \<lparr>openrouter_chat = Returns None, gemini = Returns (Some (js ''Try Palolem.'')),
           openrouter_free = Returns None\<rparr>
          (replicate 51 (1000, \<lparr>ip = Some (js ''10.0.0.7''), x_forwarded_for = None\<rparr>,
                         \<lparr>message = Some (js ''hi''), req_context = None\<rparr>))
          \<lparr>chatbotRateLimitStore = (\<lambda>k. None), chatbotProviderCooldownUntil = 0\<rparr>)
     = replicate 51
         (Chat200 \<lparr>cb_success = True, cb_message = js ''Try Palolem.'',
                   cb_context = js ''travel'', cb_provider = js ''gemini-1.5-flash'',
                   cb_fallback = None, cb_rateLimited = None\<rparr>,
          [Gemini])
   \<and> chatbotRateLimitStore
        (snd (chatbot_requests toLowerCase \<lparr>OPENROUTER_API_KEY = None, OPENROUTER_DEFAULT_MODEL = None\<rparr>
          \<lparr>openrouter_chat = Returns None, gemini = Returns (Some (js ''Try Palolem.'')),
           openrouter_free = Returns None\<rparr>
          (replicate 51 (1000, \<lparr>ip = Some (js ''10.0.0.7''), x_forwarded_for = None\<rparr>,
                         \<lparr>message = Some (js ''hi''), req_context = None\<rparr>))
          \<lparr>chatbotRateLimitStore = (\<lambda>k. None), chatbotProviderCooldownUntil = 0\<rparr>))
        (js ''10.0.0.7'') = None"
proof -
  have m: "js ''hi'' \<noteq> []" and r: "js ''Try Palolem.'' \<noteq> []" by (simp_all add: js_def)
  have t: "trim (js ''Try Palolem.'') = js ''Try Palolem.''"
    by (simp add: trim_def is_space_def js_def)
  show ?thesis
    using gemini_answers_run[OF m r, where ra = "Returns None" and rb = "Returns None"
            and k = 51 and toLowerCase = toLowerCase] t
    by simp
qed

text \<open>
  C3. A request at 9500 ms on which Gemini answers 429 leaves the cooldown at 10500 ms.
  The next request, at 10000 ms and so before the cooldown ends, contacts Gemini again:
  the handler sets \<open>chatbotProviderCooldownUntil\<close> to \<open>0\<close> on entry and never compares
  it with the clock.
\<close>

theorem chatbot_contacts_provider_during_cooldown:
  "chatbotProviderCooldownUntil
     (snd (chatbot_requests toLowerCase \<lparr>OPENROUTER_API_KEY = None, OPENROUTER_DEFAULT_MODEL = None\<rparr>
        \<lparr>openrouter_chat = Returns None,
         gemini = Throws \<lparr>err_message = js ''Request failed with status code 429'',
                           err_status = Some 429\<rparr>,
         openrouter_free = Returns None\<rparr>
        [(9500, \<lparr>ip = Some (js ''10.0.0.7''), x_forwarded_for = None\<rparr>,
          \<lparr>message = Some (js ''hi''), req_context = None\<rparr>)]
        \<lparr>chatbotRateLimitStore = (\<lambda>k. None), chatbotProviderCooldownUntil = 0\<rparr>))
     = 10500
   \<and> map snd
       (fst (chatbot_requests toLowerCase \<lparr>OPENROUTER_API_KEY = None, OPENROUTER_DEFAULT_MODEL = None\<rparr>
          \<lparr>openrouter_chat = Returns None,
           gemini = Throws \<lparr>err_message = js ''Request failed with status code 429'',
                             err_status = Some 429\<rparr>,
           openrouter_free = Returns None\<rparr>
          [(9500, \<lparr>ip = Some (js ''10.0.0.7''), x_forwarded_for = None\<rparr>,
            \<lparr>message = Some (js ''hi''), req_context = None\<rparr>),
           (10000, \<lparr>ip = Some (js ''10.0.0.7''), x_forwarded_for = None\<rparr>,
            \<lparr>message = Some (js ''hi''), req_context = None\<rparr>)]
          \<lparr>chatbotRateLimitStore = (\<lambda>k. None), chatbotProviderCooldownUntil = 0\<rparr>))
     = [[Gemini], [Gemini]]"
  by (simp add: chatbot_route_def chatbot_handler_def chatbot_catch_offline Let_def truthy_def
        accepted_def CHATBOT_PROVIDER_COOLDOWN_MS_def js_def)

section \<open>Properties of the translation endpoint\<close>

lemma translate_catch_down:
  assumes "truthy (OPENROUTER_API_KEY cfg) \<longrightarrow> accepted (openrouter_translate env) = None"
    and "accepted (libretranslate env) = None"
    and "accepted (mymemory env) = None"
  shows "fst (translate_catch toLowerCase cfg tp env now req error calls cd) =
           Translate200
             \<lparr>tr_success = True,
              tr_originalText = str_of (req_text req),
              tr_translatedText =
                offline_translate toLowerCase tp (str_of (fromLanguage req)) (str_of (toLanguage req))
                  (str_of (req_text req)),
              tr_fromLanguage = str_of (fromLanguage req),
              tr_toLanguage = str_of (toLanguage req),
              tr_provider = None,
              tr_fallback = Some True,
              tr_message = Some (if err_status error = Some 429
                                 then js ''Rate limited. Using fallback translation.''
                                 else js ''Using fallback translation'')\<rparr>"
  using assms by (simp add: translate_catch_def Let_def)

lemma translate_catch_calls:
  "set (fst (snd (translate_catch toLowerCase cfg tp env now req error calls cd))) =
     set calls
     \<union> (if truthy (OPENROUTER_API_KEY cfg) then {OpenRouter} else {})
     \<union> (if (if truthy (OPENROUTER_API_KEY cfg) then accepted (openrouter_translate env)
              else None) = None
        then {LibreTranslate} \<union> (if accepted (libretranslate env) = None then {MyMemory} else {})
        else {})"
  by (auto simp: translate_catch_def Let_def split: option.splits)

lemma translate_fallback_response:
  assumes present: "truthy (req_text req)" "truthy (fromLanguage req)" "truthy (toLanguage req)"
    and fail: "\<forall>p\<in>set (fst (snd (translate_handler toLowerCase cfg tp env now req cd))).
                 accepted (translate_call env p) = None"
  shows "\<exists>info. fst (translate_handler toLowerCase cfg tp env now req cd) =
           Translate200
             \<lparr>tr_success = True,
              tr_originalText = str_of (req_text req),
              tr_translatedText =
                offline_translate toLowerCase tp (str_of (fromLanguage req)) (str_of (toLanguage req))
                  (str_of (req_text req)),
              tr_fromLanguage = str_of (fromLanguage req),
              tr_toLanguage = str_of (toLanguage req),
              tr_provider = None,
              tr_fallback = Some True,
              tr_message = Some info\<rparr>"
proof -
  let ?error = "case google env of Throws error \<Rightarrow> error
                | Returns v \<Rightarrow> new_Error (js ''No translation result from AI'')"
  have g: "accepted (google env) = None"
  proof (rule ccontr)
    assume "accepted (google env) \<noteq> None"
    then obtain r where r: "accepted (google env) = Some r" by auto
    then have "fst (snd (translate_handler toLowerCase cfg tp env now req cd)) = [GoogleTranslate]"
      using present by (simp add: translate_handler_def)
    then show False using fail r by (simp add: translate_call_def)
  qed
  have run: "translate_handler toLowerCase cfg tp env now req cd
               = translate_catch toLowerCase cfg tp env now req ?error [GoogleTranslate] cd"
    using present g by (simp add: translate_handler_def)
  note calls = translate_catch_calls[of toLowerCase cfg tp env now req ?error "[GoogleTranslate]" cd]
  have q1: "truthy (OPENROUTER_API_KEY cfg) \<longrightarrow> accepted (openrouter_translate env) = None"
  proof
    assume k: "truthy (OPENROUTER_API_KEY cfg)"
    then have "OpenRouter \<in> set (fst (snd (translate_handler toLowerCase cfg tp env now req cd)))"
      unfolding run calls by simp
    then show "accepted (openrouter_translate env) = None"
      using fail by (auto simp: translate_call_def)
  qed
  have q2: "accepted (libretranslate env) = None"
  proof -
    have "LibreTranslate \<in> set (fst (snd (translate_handler toLowerCase cfg tp env now req cd)))"
      unfolding run calls using q1 by simp
    then show ?thesis using fail by (auto simp: translate_call_def)
  qed
  have q3: "accepted (mymemory env) = None"
  proof -
    have "MyMemory \<in> set (fst (snd (translate_handler toLowerCase cfg tp env now req cd)))"
      unfolding run calls using q1 q2 by simp
    then show ?thesis using fail by (auto simp: translate_call_def)
  qed
  show ?thesis unfolding run using translate_catch_down[OF q1 q2 q3] by simp
qed

lemma english_hindi_values: "\<forall>kv\<in>set english_hindi. snd kv \<noteq> []"
  by (simp add: english_hindi_def)

lemma english_konkani_values: "\<forall>kv\<in>set english_konkani. snd kv \<noteq> []"
  by (simp add: english_konkani_def)

lemma english_marathi_values: "\<forall>kv\<in>set english_marathi. snd kv \<noteq> []"
  by (simp add: english_marathi_def)

lemma fallbackTranslations_values:
  assumes "fallbackTranslations key = Some tm"
  shows "\<forall>kv\<in>set tm. snd kv \<noteq> []"
proof -
  from assms have "tm = english_hindi \<or> tm = english_konkani \<or> tm = english_marathi"
    by (auto simp: fallbackTranslations_def split: if_splits)
  then show ?thesis
    using english_hindi_values english_konkani_values english_marathi_values by blast
qed

lemma dict_get_nonempty:
  assumes "k \<in> set (map fst tm)" and "\<forall>kv\<in>set tm. snd kv \<noteq> []"
  shows "dict_get tm k \<noteq> []"
proof -
  from assms(1) have "map_of tm k \<noteq> None" by (simp add: map_of_eq_None_iff)
  then obtain v where v: "map_of tm k = Some v" by auto
  then have "(k, v) \<in> set tm" by (rule map_of_SomeD)
  then have "v \<noteq> []" using assms(2) by auto
  then show ?thesis using v by (simp add: dict_get_def str_of_def)
qed

lemma find_truthy:
  assumes "truthy (find P xs)"
  shows "str_of (find P xs) \<in> set xs"
proof -
  from assms obtain x where x: "find P xs = Some x" by (auto simp: truthy_def split: option.splits)
  then have "x \<in> set xs" by (auto simp: find_Some_iff)
  then show ?thesis using x by (simp add: str_of_def)
qed

lemma translate_word_nonempty:
  assumes "\<forall>kv\<in>set tm. snd kv \<noteq> []" and "snd (translate_word toLowerCase tp key tm w)"
  shows "fst (translate_word toLowerCase tp key tm w) \<noteq> []"
proof -
  let ?hit = "case tp key of None \<Rightarrow> None
              | Some patterns \<Rightarrow> if truthy (patterns w) then patterns w else None"
  let ?found = "find (\<lambda>k. js_includes (toLowerCase k) w \<or> js_includes w (toLowerCase k))
                  (map fst tm)"
  show ?thesis
  proof (cases ?hit)
    case (Some t)
    then have "t \<noteq> []" by (auto simp: truthy_def split: option.splits if_splits)
    then show ?thesis using Some by (simp add: translate_word_def)
  next
    case None
    then have tw: "translate_word toLowerCase tp key tm w =
                     (if truthy ?found then (dict_get tm (str_of ?found), True) else (w, False))"
      by (simp add: translate_word_def Let_def)
    then have "truthy ?found" using assms(2) by (simp split: if_splits)
    then show ?thesis
      using tw dict_get_nonempty[OF find_truthy assms(1)] by simp
  qed
qed

lemma offline_translate_nonempty:
  assumes "txt \<noteq> []" and "txt \<notin> set object_prototype_names"
  shows "\<exists>t. offline_translate toLowerCase tp fromL toL txt = Text t \<and> t \<noteq> []"
proof (cases "fallbackTranslations (fromL @ js ''-'' @ toL)")
  case None
  then show ?thesis using assms(1) by (simp add: offline_translate_def)
next
  case (Some tm)
  note vals = fallbackTranslations_values[OF Some]
  let ?key = "fromL @ js ''-'' @ toL"
  let ?exactKey = "find (\<lambda>k. toLowerCase k = toLowerCase txt) (map fst tm)"
  let ?pieces = "map (translate_word toLowerCase tp ?key tm) (split_ws (toLowerCase txt))"
  show ?thesis
  proof (cases "truthy (map_of tm txt)")
    case True
    then have "dict_get tm txt \<noteq> []"
      by (auto simp: dict_get_def str_of_def truthy_def split: option.splits)
    then show ?thesis using Some True by (simp add: offline_translate_def)
  next
    case False
    show ?thesis
    proof (cases "truthy ?exactKey")
      case True
      have "dict_get tm (str_of ?exactKey) \<noteq> []"
        using dict_get_nonempty[OF find_truthy[OF True] vals] .
      then show ?thesis
        using Some False True assms(2) by (simp add: offline_translate_def Let_def)
    next
      case nokey: False
      show ?thesis
      proof (cases "list_ex snd ?pieces")
        case True
        then obtain w where w: "w \<in> set (split_ws (toLowerCase txt))"
            "snd (translate_word toLowerCase tp ?key tm w)"
          by (auto simp: list_ex_iff)
        have "fst (translate_word toLowerCase tp ?key tm w) \<noteq> []"
          using translate_word_nonempty[OF vals w(2)] .
        moreover have "fst (translate_word toLowerCase tp ?key tm w) \<in> set (map fst ?pieces)"
          using w(1) by auto
        ultimately have "join (js '' '') (map fst ?pieces) \<noteq> []"
          using join_nonempty by blast
        then show ?thesis
          using Some False nokey True assms(2) by (simp add: offline_translate_def Let_def)
      next
        case nohit: False
        then show ?thesis
          using Some False nokey assms by (simp add: offline_translate_def Let_def)
      qed
    qed
  qed
qed

text \<open>
  The lookup of an inherited name: \<open>translatedText\<close> is then no string, and the body
  that is sent has no text in that field.
\<close>

lemma offline_translate_inherited_name:
  "offline_translate toLowerCase tp (js ''English'') (js ''Hindi'') (js ''constructor'')
     = Inherited (js ''constructor'')"
  by (simp add: offline_translate_def fallbackTranslations_def english_hindi_def js_def
                truthy_def object_prototype_names_def)

lemma offline_translate_hello:
  "offline_translate toLowerCase tp (js ''English'') (js ''Hindi'') (js ''Hello'')
     = Text [0x928, 0x92E, 0x938, 0x94D, 0x924, 0x947]"
  by (simp add: offline_translate_def fallbackTranslations_def english_hindi_def js_def
                truthy_def dict_get_def str_of_def)

text \<open>
  C6. \<open>Hello\<close> from \<open>English\<close> to \<open>Hindi\<close>, when every provider that the handler
  contacts fails, is answered with status 200 by a body whose \<open>translatedText\<close> is the
  dictionary's value for \<open>Hello\<close> (the code units U+0928 U+092E U+0938 U+094D U+0924
  U+0947), with \<open>fallback = true\<close>, whatever the pattern table holds and whatever
  the lower-casing function is.
\<close>

theorem translate_hello_hindi_fallback:
  assumes req: "req_text req = Some (js ''Hello'')" "fromLanguage req = Some (js ''English'')"
      "toLanguage req = Some (js ''Hindi'')"
    and fail: "\<forall>p\<in>set (fst (snd (translate_handler toLowerCase cfg tp env now req cd))).
                 accepted (translate_call env p) = None"
  shows "\<exists>body. fst (translate_handler toLowerCase cfg tp env now req cd) = Translate200 body
           \<and> tr_success body
           \<and> tr_translatedText body = Text [0x928, 0x92E, 0x938, 0x94D, 0x924, 0x947]
           \<and> tr_fallback body = Some True"
proof -
  have present: "truthy (req_text req)" "truthy (fromLanguage req)" "truthy (toLanguage req)"
    using req by (simp_all add: truthy_def js_def)
  have vals: "str_of (req_text req) = js ''Hello''" "str_of (fromLanguage req) = js ''English''"
      "str_of (toLanguage req) = js ''Hindi''"
    using req by (simp_all add: str_of_def)
  from translate_fallback_response[OF present fail] show ?thesis
    unfolding vals offline_translate_hello by auto
qed

text \<open>
  No key is configured; the first provider answers 429 and the two free ones fail.
\<close>

theorem translate_hello_hindi_fallback_witness:
  "\<exists>body. fst (translate_handler lower_ascii
                  \<lparr>OPENROUTER_API_KEY = None, OPENROUTER_DEFAULT_MODEL = None\<rparr>
                  (\<lambda>k. None)
                  \<lparr>google = Throws \<lparr>err_message = js ''Too Many Requests'',
                                      err_status = Some 429\<rparr>,
                   openrouter_translate = Returns None,
                   libretranslate = Throws (new_Error (js ''timeout of 15000ms exceeded'')),
                   mymemory = Throws (new_Error (js ''Network Error''))\<rparr> 0
                  \<lparr>req_text = Some (js ''Hello''), fromLanguage = Some (js ''English''),
                   toLanguage = Some (js ''Hindi'')\<rparr> 0) = Translate200 body
           \<and> tr_translatedText body = Text [0x928, 0x92E, 0x938, 0x94D, 0x924, 0x947]
           \<and> tr_fallback body = Some True"
proof -
  let ?cfg = "\<lparr>OPENROUTER_API_KEY = None, OPENROUTER_DEFAULT_MODEL = None\<rparr>"
  let ?env = "\<lparr>google = Throws \<lparr>err_message = js ''Too Many Requests'',
                                   err_status = Some 429\<rparr>,
               openrouter_translate = Returns None,
               libretranslate = Throws (new_Error (js ''timeout of 15000ms exceeded'')),
               mymemory = Throws (new_Error (js ''Network Error''))\<rparr>"
  let ?req = "\<lparr>req_text = Some (js ''Hello''), fromLanguage = Some (js ''English''),
               toLanguage = Some (js ''Hindi'')\<rparr>"
  have calls: "fst (snd (translate_handler lower_ascii ?cfg (\<lambda>k. None) ?env 0 ?req 0))
                 = [GoogleTranslate, LibreTranslate, MyMemory]"
    by (simp add: translate_handler_def translate_catch_def Let_def truthy_def accepted_def
                  js_def)
  have fail: "\<forall>p\<in>set (fst (snd (translate_handler lower_ascii ?cfg (\<lambda>k. None) ?env 0 ?req 0))).
                accepted (translate_call ?env p) = None"
    unfolding calls by (simp add: translate_call_def accepted_def)
  have "\<exists>body. fst (translate_handler lower_ascii ?cfg (\<lambda>k. None) ?env 0 ?req 0) = Translate200 body
           \<and> tr_success body
           \<and> tr_translatedText body = Text [0x928, 0x92E, 0x938, 0x94D, 0x924, 0x947]
           \<and> tr_fallback body = Some True"
    by (rule translate_hello_hindi_fallback[OF _ _ _ fail]) simp_all
  then show ?thesis by blast
qed

section \<open>The fallback answer of both endpoints\<close>

text \<open>
  Where the fallback does answer with a text: a translation request whose \<open>text\<close>,
  \<open>fromLanguage\<close> and \<open>toLanguage\<close> are non-empty strings, the text not being the name of
  an inherited object member, and a chatbot request whose \<open>message\<close> is a non-empty
  string, when every provider that the handler contacts fails, are answered with status
  200 by a body with \<open>success = true\<close>, \<open>fallback = true\<close> and a non-empty string as
  \<open>translatedText\<close> (respectively \<open>message\<close>).
\<close>

lemma fallback_answers_with_text:
  "(truthy (req_text treq) \<and> truthy (fromLanguage treq) \<and> truthy (toLanguage treq)
      \<and> str_of (req_text treq) \<notin> set object_prototype_names
      \<and> (\<forall>p\<in>set (fst (snd (translate_handler toLowerCase cfg tp tenv now treq cd))).
             accepted (translate_call tenv p) = None)
    \<longrightarrow> (\<exists>body t. fst (translate_handler toLowerCase cfg tp tenv now treq cd) = Translate200 body
           \<and> tr_success body \<and> tr_fallback body = Some True
           \<and> tr_translatedText body = Text t \<and> t \<noteq> []))
   \<and> (truthy (message creq)
      \<and> (\<forall>p\<in>set (fst (snd (chatbot_handler toLowerCase cfg cenv now creq cd))).
             accepted (chatbot_call cenv p) = None)
    \<longrightarrow> (\<exists>body. fst (chatbot_handler toLowerCase cfg cenv now creq cd) = Chat200 body
           \<and> cb_success body \<and> cb_fallback body = Some True
           \<and> cb_message body \<noteq> []))"
proof (intro conjI impI)
  assume a: "truthy (req_text treq) \<and> truthy (fromLanguage treq) \<and> truthy (toLanguage treq)
      \<and> str_of (req_text treq) \<notin> set object_prototype_names
      \<and> (\<forall>p\<in>set (fst (snd (translate_handler toLowerCase cfg tp tenv now treq cd))).
             accepted (translate_call tenv p) = None)"
  then have present: "str_of (req_text treq) \<noteq> []"
    by (auto simp: truthy_def str_of_def split: option.splits)
  have own: "str_of (req_text treq) \<notin> set object_prototype_names" using a by blast
  obtain t where
    "offline_translate toLowerCase tp (str_of (fromLanguage treq)) (str_of (toLanguage treq))
          (str_of (req_text treq)) = Text t \<and> t \<noteq> []"
    using offline_translate_nonempty[OF present own] by blast
  moreover obtain info where
    "fst (translate_handler toLowerCase cfg tp tenv now treq cd) =
           Translate200
             \<lparr>tr_success = True,
              tr_originalText = str_of (req_text treq),
              tr_translatedText =
                offline_translate toLowerCase tp (str_of (fromLanguage treq)) (str_of (toLanguage treq))
                  (str_of (req_text treq)),
              tr_fromLanguage = str_of (fromLanguage treq),
              tr_toLanguage = str_of (toLanguage treq),
              tr_provider = None,
              tr_fallback = Some True,
              tr_message = Some info\<rparr>"
    using translate_fallback_response[of treq toLowerCase cfg tp tenv now cd] a by blast
  ultimately show "\<exists>body t. fst (translate_handler toLowerCase cfg tp tenv now treq cd) = Translate200 body
           \<and> tr_success body \<and> tr_fallback body = Some True
           \<and> tr_translatedText body = Text t \<and> t \<noteq> []"
    by simp
next
  assume a: "truthy (message creq)
      \<and> (\<forall>p\<in>set (fst (snd (chatbot_handler toLowerCase cfg cenv now creq cd))).
             accepted (chatbot_call cenv p) = None)"
  then obtain rl where
    "fst (chatbot_handler toLowerCase cfg cenv now creq cd) =
           Chat200 \<lparr>cb_success = True,
                    cb_message = generateOfflineChatbotResponse toLowerCase (str_of (message creq)),
                    cb_context = context_of creq,
                    cb_provider = js ''offline-goa-guide'',
                    cb_fallback = Some True,
                    cb_rateLimited = Some rl\<rparr>"
    using chatbot_fallback_response[of creq toLowerCase cfg cenv now cd] by blast
  then show "\<exists>body. fst (chatbot_handler toLowerCase cfg cenv now creq cd) = Chat200 body
           \<and> cb_success body \<and> cb_fallback body = Some True
           \<and> cb_message body \<noteq> []"
    using offline_response_nonempty by simp
qed

text \<open>
  C1. The text \<open>constructor\<close> from \<open>English\<close> to \<open>Hindi\<close>, with no key configured and every
  provider that is contacted timing out: the answer has status 200 with
  \<open>success = true\<close> and \<open>fallback = true\<close>, but its \<open>translatedText\<close> is the function that
  every object inherits under that name, not a text, so the body that is sent has no
  \<open>translatedText\<close>. This is so for every lower-casing function and pattern table.
\<close>

theorem translate_inherited_name_no_text:
  "translate_handler toLowerCase
     \<lparr>OPENROUTER_API_KEY = None, OPENROUTER_DEFAULT_MODEL = None\<rparr> tp
     \<lparr>google = Throws (new_Error (js ''timeout of 15000ms exceeded'')),
      openrouter_translate = Throws (new_Error (js ''timeout of 15000ms exceeded'')),
      libretranslate = Throws (new_Error (js ''timeout of 15000ms exceeded'')),
      mymemory = Throws (new_Error (js ''timeout of 15000ms exceeded''))\<rparr> now
     \<lparr>req_text = Some (js ''constructor''), fromLanguage = Some (js ''English''),
      toLanguage = Some (js ''Hindi'')\<rparr> cd
   = (Translate200
        \<lparr>tr_success = True,
         tr_originalText = js ''constructor'',
         tr_translatedText = Inherited (js ''constructor''),
         tr_fromLanguage = js ''English'',
         tr_toLanguage = js ''Hindi'',
         tr_provider = None,
         tr_fallback = Some True,
         tr_message = Some (js ''Using fallback translation'')\<rparr>,
      [GoogleTranslate, LibreTranslate, MyMemory], cd)"
proof -
  have present: "js ''constructor'' \<noteq> []" "js ''English'' \<noteq> []" "js ''Hindi'' \<noteq> []"
    by (simp_all add: js_def)
  show ?thesis
    using present
    by (simp add: translate_handler_def translate_catch_def Let_def truthy_def accepted_def
          new_Error_def str_of_def offline_translate_inherited_name)
qed

text \<open>The same request with ASCII lower-casing and an empty pattern table.\<close>

theorem translate_inherited_name_no_text_witness:
  "translate_handler lower_ascii
     \<lparr>OPENROUTER_API_KEY = None, OPENROUTER_DEFAULT_MODEL = None\<rparr> (\<lambda>k. None)
     \<lparr>google = Throws (new_Error (js ''timeout of 15000ms exceeded'')),
      openrouter_translate = Throws (new_Error (js ''timeout of 15000ms exceeded'')),
      libretranslate = Throws (new_Error (js ''timeout of 15000ms exceeded'')),
      mymemory = Throws (new_Error (js ''timeout of 15000ms exceeded''))\<rparr> 0
     \<lparr>req_text = Some (js ''constructor''), fromLanguage = Some (js ''English''),
      toLanguage = Some (js ''Hindi'')\<rparr> 0
   = (Translate200
        \<lparr>tr_success = True,
         tr_originalText = js ''constructor'',
         tr_translatedText = Inherited (js ''constructor''),
         tr_fromLanguage = js ''English'',
         tr_toLanguage = js ''Hindi'',
         tr_provider = None,
         tr_fallback = Some True,
         tr_message = Some (js ''Using fallback translation'')\<rparr>,
      [GoogleTranslate, LibreTranslate, MyMemory], 0)"
  by (rule translate_inherited_name_no_text)

section \<open>Properties of the nearby places endpoint\<close>


lemma nearby_places_props:
  assumes "nearby_places lat0 lon0 r elements = Inr ps"
  shows "(\<forall>p\<in>set ps. p_distance p \<le> r / 1000) \<and> sorted (map p_distance ps) \<and> length ps \<le> 50"
proof -
  from assms obtain mapped where
    ps: "ps = take 50 (sort_key p_distance (filter (\<lambda>place. p_distance place \<le> r / 1000) mapped))"
    by (auto simp: nearby_places_def Let_def split: sum.splits)
  have "set ps \<subseteq> set (filter (\<lambda>place. p_distance place \<le> r / 1000) mapped)"
    unfolding ps using set_take_subset[of 50 "sort_key p_distance (filter (\<lambda>place. p_distance place \<le> r / 1000) mapped)"]
    by simp
  then have a: "\<forall>p\<in>set ps. p_distance p \<le> r / 1000" by auto
  have "sorted (map p_distance (sort_key p_distance (filter (\<lambda>place. p_distance place \<le> r / 1000) mapped)))"
    by (rule sorted_sort_key)
  then have b: "sorted (map p_distance ps)"
    unfolding ps take_map[symmetric] by (rule sorted_wrt_take)
  have c: "length ps \<le> 50" unfolding ps by simp
  show ?thesis using a b c by blast
qed

text \<open>
  C4, as the code has it. Whenever the handler answers with a list of places: every
  \<open>distance\<close> is at most the search radius divided by 1000, the search radius being
  the requested \<open>radius\<close> when that is present and not \<open>0\<close> and 5000 otherwise; the
  distances are in ascending order; the list has at most 50 entries; and \<open>total\<close> is
  its length. The proof does not depend on how the distance is computed.
\<close>

theorem places_within_radius_sorted_capped:
  assumes "places_handler post req = (Places200 ps n, calls)"
  shows "(\<forall>p\<in>set ps. p_distance p \<le> search_radius req / 1000)
         \<and> sorted (map p_distance ps)
         \<and> length ps \<le> 50
         \<and> n = length ps"
proof -
  obtain response lastError calls' where
    t: "try_endpoints post overpassUrls None = (response, lastError, calls')"
    by (cases "try_endpoints post overpassUrls None") auto
  from assms t consider
      (empty) "ps = []" "n = 0"
    | (found) elements where
        "nearby_places (num_of (latitude req)) (num_of (longitude req)) (search_radius req)
           elements = Inr ps" "n = length ps"
    by (auto simp: places_handler_def places_catch_def split: if_splits option.splits sum.splits)
  then show ?thesis
  proof cases
    case empty
    then show ?thesis by simp
  next
    case found
    then show ?thesis using nearby_places_props by blast
  qed
qed

text \<open>
  The distance along a meridian, and the distances of the nodes of the examples, for
  which the bounds \<open>2 \<le> pi < 4\<close> are enough.
\<close>

lemma haversine_meridian:
  assumes "0 \<le> lat - lat0" "lat - lat0 \<le> 90"
  shows "haversine_km lat0 lon0 lat lon0 = 6371 * ((lat - lat0) * pi / 180)"
proof -
  define x where "x = (lat - lat0) * pi / 180 / 2"
  have x0: "0 \<le> x" using assms(1) by (simp add: x_def)
  have "(lat - lat0) * pi \<le> 90 * pi" using assms(2) by simp
  then have x1: "x \<le> pi / 4" by (simp add: x_def)
  have x2: "x < pi / 2" using x1 pi_gt_zero by linarith
  have s: "0 \<le> sin x" using x0 x2 pi_gt_zero by (intro sin_ge_zero) linarith+
  have c: "0 < cos x" using x0 x2 by (intro cos_gt_zero_pi) linarith+
  have a: "sqrt (sin x * sin x) = sin x" using s by simp
  have "1 - sin x * sin x = cos x * cos x"
    using sin_cos_squared_add[of x] by (simp add: power2_eq_square algebra_simps)
  then have b: "sqrt (1 - sin x * sin x) = cos x" using c by simp
  have t: "arctan (sin x / cos x) = x"
    using arctan_tan[of x] x0 x2 by (simp add: tan_def)
  have "haversine_km lat0 lon0 lat lon0 = 6371 * (2 * atan2 (sin x) (cos x))"
    using a b by (simp add: haversine_km_def Let_def x_def)
  also have "\<dots> = 6371 * (2 * x)" using c t by (simp add: atan2_def)
  finally show ?thesis by (simp add: x_def)
qed

lemma round_tenth:
  assumes "1 / 4 \<le> x" "x \<le> 3 / 8"
  shows "math_round (x * pi) / 10 = 1 / 10"
proof -
  have lo: "2 * x \<le> x * pi" using pi_ge_two assms(1) by (simp add: mult.commute mult_left_mono)
  have hi: "x * pi < x * 4" using pi_less_4 assms(1) by (intro mult_strict_left_mono) linarith+
  have "\<lfloor>x * pi + 1 / 2\<rfloor> = 1"
    using lo hi assms by (intro floor_unique) linarith+
  then show ?thesis by (simp add: math_round_def)
qed

lemma round_far:
  assumes "3 \<le> x"
  shows "6 / 10 \<le> math_round (x * pi) / 10"
proof -
  have "2 * x \<le> x * pi" using pi_ge_two assms by (simp add: mult.commute mult_left_mono)
  then have "6 \<le> x * pi + 1 / 2" using assms by linarith
  then have "6 \<le> \<lfloor>x * pi + 1 / 2\<rfloor>" by (simp add: le_floor_iff)
  then show ?thesis by (simp add: math_round_def)
qed

lemma to_place_named_node:
  assumes "lat \<noteq> 0" "lon \<noteq> 0" "0 \<le> lat - lat0" "lat - lat0 \<le> 90"
  shows "to_place lat0 lon (named_node n lat lon name) =
           Inr (plain_place n lat lon name
                  (math_round (6371 * ((lat - lat0) * pi / 180) * 10) / 10))"
  using assms
  by (simp add: to_place_def named_node_def plain_place_def haversine_meridian truthy_num_def
        truthy_def num_of_def str_of_def js_or_def Let_def js_def)

lemma has_name_named_node: "has_name (named_node n lat lon name) = (name \<noteq> [])"
  by (simp add: has_name_def named_node_def truthy_def)

lemma shack_place:
  "to_place 15.5 73.8 (named_node n 15.5009 73.8 name) =
     Inr (plain_place n 15.5009 73.8 name (1 / 10))"
proof -
  have "math_round (6371 * ((15.5009 - 15.5) * pi / 180) * 10) / 10
          = math_round (57339 / 180000 * pi) / 10"
    by (simp add: algebra_simps)
  also have "\<dots> = 1 / 10" by (rule round_tenth) simp_all
  finally show ?thesis
    using to_place_named_node[of "15.5009" "73.8" "15.5" n name] by simp
qed

lemma cafe_place:
  "to_place 15.5 73.8 (named_node n 15.5 73.8 name) = Inr (plain_place n 15.5 73.8 name 0)"
  using to_place_named_node[of "15.5" "73.8" "15.5" n name] by (simp add: math_round_def)

lemma fort_place:
  "\<exists>d. to_place 15.5 73.8 (named_node n 15.51 73.8 name) =
          Inr (plain_place n 15.51 73.8 name d) \<and> 6 / 10 \<le> d"
proof -
  have e: "to_place 15.5 73.8 (named_node n 15.51 73.8 name) =
             Inr (plain_place n 15.51 73.8 name (math_round (6371 / 1800 * pi) / 10))"
    using to_place_named_node[of "15.51" "73.8" "15.5" n name] by (simp add: algebra_simps)
  have b: "6 / 10 \<le> math_round (6371 / 1800 * pi) / 10" by (rule round_far) simp
  show ?thesis using e b by blast
qed

lemma map_throwing_Inr:
  assumes "map f xs = map Inr ys"
  shows "map_throwing f xs = Inr ys"
  using assms by (induction xs arbitrary: ys) auto

lemma insort_key_same:
  assumes "\<forall>x\<in>set xs. f x = f y"
  shows "insort_key f y xs = y # xs"
  using assms by (cases xs) auto

lemma sort_key_last_least:
  assumes "\<forall>x\<in>set xs. f x = k" and "f a < k"
  shows "sort_key f (xs @ [a]) = a # xs"
proof -
  have "foldr (insort_key f) xs [a] = a # xs"
    using assms(1)
  proof (induction xs)
    case Nil
    then show ?case by simp
  next
    case (Cons x xs)
    then have ih: "foldr (insort_key f) xs [a] = a # xs" by simp
    have k: "f x = k" using Cons.prems by simp
    have same: "\<forall>y\<in>set xs. f y = f x" using Cons.prems by simp
    have "foldr (insort_key f) (x # xs) [a] = insort_key f x (a # xs)" using ih by simp
    also have "\<dots> = a # insort_key f x xs"
    proof -
      have "\<not> f x \<le> f a" using k assms(2) by simp
      then show ?thesis by simp
    qed
    also have "\<dots> = a # x # xs" using insort_key_same[OF same] by simp
    finally show ?case .
  qed
  then show ?thesis by (simp add: sort_key_def)
qed

text \<open>
  A request for the places within 150 m. The first endpoint answers with a node about
  1.1 km to the north, then 55 nodes about 100 m to the north, then a node at the query
  point: the far node is filtered out, the sort brings the last node to the front and
  keeps the others in their order, and the first 50 are kept.
\<close>

lemma places_example:
  "places_handler
     (\<lambda>u. Returns (Some
        (named_node 3 15.51 73.8 (js ''Fort Aguada'')
         # map (\<lambda>i. named_node (int i) 15.5009 73.8 (js ''Beach shack'')) [100..<155]
         @ [named_node 1 15.5 73.8 (js ''Cafe Mambo'')])))
     \<lparr>latitude = Some 15.5, longitude = Some 73.8, radius = Some 150\<rparr>
   = (Places200
        (plain_place 1 15.5 73.8 (js ''Cafe Mambo'') 0
         # map (\<lambda>i. plain_place (int i) 15.5009 73.8 (js ''Beach shack'') (1 / 10)) [100..<149])
        50,
      [Overpass (js ''https://overpass.kumi.systems/api/interpreter'')])"
proof -
  define ids :: "nat list" where "ids = [100..<155]"
  define shack where "shack = (\<lambda>i. named_node (int i) 15.5009 73.8 (js ''Beach shack''))"
  define pshack where
    "pshack = (\<lambda>i. plain_place (int i) 15.5009 73.8 (js ''Beach shack'') (1 / 10))"
  define fort where "fort = named_node 3 15.51 73.8 (js ''Fort Aguada'')"
  define cafe where "cafe = named_node 1 15.5 73.8 (js ''Cafe Mambo'')"
  define pcafe where "pcafe = plain_place 1 15.5 73.8 (js ''Cafe Mambo'') 0"
  obtain d where pfort: "to_place 15.5 73.8 fort =
      Inr (plain_place 3 15.51 73.8 (js ''Fort Aguada'') d)" and far: "6 / 10 \<le> d"
    unfolding fort_def using fort_place by blast
  define pfort where "pfort = plain_place 3 15.51 73.8 (js ''Fort Aguada'') d"
  have name: "js ''Fort Aguada'' \<noteq> []" "js ''Beach shack'' \<noteq> []" "js ''Cafe Mambo'' \<noteq> []"
    by (simp_all add: js_def)
  have "\<forall>el\<in>set (fort # map shack ids @ [cafe]). has_name el"
    using name by (auto simp: fort_def shack_def cafe_def has_name_named_node)
  then have named: "filter has_name (fort # map shack ids @ [cafe]) = fort # map shack ids @ [cafe]"
    by (rule filter_True)
  have f1: "to_place 15.5 73.8 fort = Inr pfort" unfolding pfort_def by (rule pfort)
  have s1: "to_place 15.5 73.8 (shack i) = Inr (pshack i)" for i
    unfolding shack_def pshack_def by (rule shack_place)
  have c1: "to_place 15.5 73.8 cafe = Inr pcafe"
    unfolding cafe_def pcafe_def by (rule cafe_place)
  have "map (to_place 15.5 73.8) (fort # map shack ids @ [cafe])
          = map Inr (pfort # map pshack ids @ [pcafe])"
    by (simp only: list.map map_append map_map o_def f1 s1 c1)
  then have mapped: "map_throwing (to_place 15.5 73.8) (fort # map shack ids @ [cafe])
                       = Inr (pfort # map pshack ids @ [pcafe])"
    by (rule map_throwing_Inr)
  have "\<forall>p\<in>set (map pshack ids @ [pcafe]). p_distance p \<le> 150 / 1000"
    by (auto simp: pshack_def pcafe_def plain_place_def)
  then have "filter (\<lambda>place. p_distance place \<le> 150 / 1000) (map pshack ids @ [pcafe])
               = map pshack ids @ [pcafe]"
    by (rule filter_True)
  moreover have "\<not> p_distance pfort \<le> 150 / 1000"
    using far by (simp add: pfort_def plain_place_def)
  ultimately have near:
    "filter (\<lambda>place. p_distance place \<le> 150 / 1000) (pfort # map pshack ids @ [pcafe])
       = map pshack ids @ [pcafe]"
    by simp
  have sorted: "sort_key p_distance (map pshack ids @ [pcafe]) = pcafe # map pshack ids"
    by (rule sort_key_last_least[where k = "1 / 10"])
       (auto simp: pshack_def pcafe_def plain_place_def)
  define kept :: "nat list" where "kept = [100..<149]"
  have "take 49 ids = kept" unfolding ids_def kept_def by (simp add: take_upt)
  then have cap: "take 50 (pcafe # map pshack ids) = pcafe # map pshack kept"
    by (simp add: take_map)
  have "nearby_places 15.5 73.8 150 (fort # map shack ids @ [cafe])
          = Inr (take 50 (sort_key p_distance
                   (filter (\<lambda>place. p_distance place \<le> 150 / 1000)
                      (pfort # map pshack ids @ [pcafe]))))"
    by (simp only: nearby_places_def named mapped sum.case Let_def)
  then have places: "nearby_places 15.5 73.8 150 (fort # map shack ids @ [cafe])
                       = Inr (pcafe # map pshack kept)"
    unfolding near sorted cap .
  have len: "length (pcafe # map pshack kept) = 50" unfolding kept_def by simp
  have radius: "search_radius \<lparr>latitude = Some 15.5, longitude = Some 73.8, radius = Some 150\<rparr>
                  = 150"
    by (simp add: search_radius_def truthy_num_def num_of_def)
  have "places_handler (\<lambda>u. Returns (Some (fort # map shack ids @ [cafe])))
          \<lparr>latitude = Some 15.5, longitude = Some 73.8, radius = Some 150\<rparr>
        = (Places200 (pcafe # map pshack kept) 50,
           [Overpass (js ''https://overpass.kumi.systems/api/interpreter'')])"
    unfolding places_handler_def radius
    using places len by (simp add: overpassUrls_def truthy_num_def num_of_def)
  then show ?thesis
    unfolding fort_def shack_def ids_def cafe_def pcafe_def pshack_def kept_def .
qed

text \<open>
  The example above: the places answered are within the 150 m requested, in ascending
  order of distance, and 50 of the 56 that are in range.
\<close>

theorem places_within_radius_sorted_capped_witness:
  "(let places = plain_place 1 15.5 73.8 (js ''Cafe Mambo'') 0
                 # map (\<lambda>i. plain_place (int i) 15.5009 73.8 (js ''Beach shack'') (1 / 10))
                     [100..<149]
    in places_handler
         (\<lambda>u. Returns (Some
            (named_node 3 15.51 73.8 (js ''Fort Aguada'')
             # map (\<lambda>i. named_node (int i) 15.5009 73.8 (js ''Beach shack'')) [100..<155]
             @ [named_node 1 15.5 73.8 (js ''Cafe Mambo'')])))
         \<lparr>latitude = Some 15.5, longitude = Some 73.8, radius = Some 150\<rparr>
       = (Places200 places 50,
          [Overpass (js ''https://overpass.kumi.systems/api/interpreter'')])
     \<and> list_all (\<lambda>p. p_distance p \<le> 150 / 1000) places
     \<and> sorted (map p_distance places)
     \<and> length places = 50)"
proof -
  define places where
    "places = plain_place 1 15.5 73.8 (js ''Cafe Mambo'') 0
              # map (\<lambda>i. plain_place (int i) 15.5009 73.8 (js ''Beach shack'') (1 / 10))
                  [100..<149]"
  define req where
    "req = \<lparr>latitude = Some 15.5, longitude = Some 73.8, radius = Some (150 :: real)\<rparr>"
  have radius: "search_radius req = 150"
    by (simp add: req_def search_radius_def truthy_num_def num_of_def)
  note run = places_example[folded places_def req_def]
  note inst = places_within_radius_sorted_capped[OF run]
  have "\<forall>p\<in>set places. p_distance p \<le> 150 / 1000"
    using inst unfolding radius by blast
  then have a: "list_all (\<lambda>p. p_distance p \<le> 150 / 1000) places"
    by (simp only: list_all_iff)
  have b: "sorted (map p_distance places)" using inst by blast
  have c: "length places = 50" using inst by simp
  show ?thesis
    unfolding Let_def using run a b c unfolding places_def req_def by blast
qed

text \<open>
  C4 as stated bounds the distance by the requested radius. A request with
  \<open>radius = 0\<close> is served with the default radius of 5000 m: a place 100 m away is
  answered, and its distance is not within the \<open>0\<close> requested.
\<close>

theorem places_radius_zero_counterexample:
  "places_handler
     (\<lambda>u. Returns (Some [named_node 2 15.5009 73.8 (js ''Beach shack'')]))
     \<lparr>latitude = Some 15.5, longitude = Some 73.8, radius = Some 0\<rparr>
   = (Places200 [plain_place 2 15.5009 73.8 (js ''Beach shack'') (1 / 10)] 1,
      [Overpass (js ''https://overpass.kumi.systems/api/interpreter'')])
   \<and> \<not> p_distance (plain_place 2 15.5009 73.8 (js ''Beach shack'') (1 / 10)) \<le> 0 / 1000"
proof -
  define shack where "shack = named_node 2 15.5009 73.8 (js ''Beach shack'')"
  define pshack where "pshack = plain_place 2 15.5009 73.8 (js ''Beach shack'') (1 / 10)"
  have d: "p_distance pshack = 1 / 10" by (simp add: pshack_def plain_place_def)
  have named: "filter has_name [shack] = [shack]"
    by (simp add: shack_def has_name_named_node js_def)
  have "to_place 15.5 73.8 shack = Inr pshack"
    unfolding shack_def pshack_def by (rule shack_place)
  then have mapped: "map_throwing (to_place 15.5 73.8) [shack] = Inr [pshack]" by simp
  have places: "nearby_places 15.5 73.8 5000 [shack] = Inr [pshack]"
    unfolding nearby_places_def named mapped using d by simp
  have radius: "search_radius \<lparr>latitude = Some 15.5, longitude = Some 73.8, radius = Some 0\<rparr>
                  = 5000"
    by (simp add: search_radius_def truthy_num_def)
  have "places_handler (\<lambda>u. Returns (Some [shack]))
          \<lparr>latitude = Some 15.5, longitude = Some 73.8, radius = Some 0\<rparr>
        = (Places200 [pshack] 1,
           [Overpass (js ''https://overpass.kumi.systems/api/interpreter'')])"
    unfolding places_handler_def radius
    using places by (simp add: overpassUrls_def truthy_num_def num_of_def)
  moreover have "\<not> p_distance pshack \<le> 0 / 1000" using d by simp
  ultimately show ?thesis unfolding shack_def pshack_def by blast
qed

text \<open>
  C9. A request whose \<open>latitude\<close> or \<open>longitude\<close> is the number \<open>0\<close> is answered with
  the 400 error for missing parameters, and no endpoint is contacted.
\<close>

theorem places_zero_coordinate_rejected:
  assumes "latitude req = Some 0 \<or> longitude req = Some 0"
  shows "places_handler post req =
           (Places400 (js ''Missing required parameters: latitude, longitude''), [])"
  using assms by (auto simp: places_handler_def truthy_num_def)

text \<open>
  A point on the equator.
\<close>

theorem places_zero_coordinate_rejected_witness:
  "places_handler (\<lambda>u. Returns (Some []))
     \<lparr>latitude = Some 0, longitude = Some 73.8278, radius = Some 2000\<rparr>
     = (Places400 (js ''Missing required parameters: latitude, longitude''), [])"
  by (rule places_zero_coordinate_rejected) simp




end
